theory Spec2Isabelle
  imports Complex_Main "HOL-Library.AList" "HOL-Library.Char_ord" "HOL-Library.List_Lexorder"
begin

section \<open>Python values\<close>

text \<open>
  The record layer of \<^verbatim>\<open>module/config/stored/classes.py\<close> stores Python values in
  dictionaries.  A \<open>datetime\<close> is kept as the whole seconds of the instant together with
  its \<open>microsecond\<close> field, which is all that \<^verbatim>\<open>replace(microsecond=0)\<close> and
  \<^verbatim>\<open>timestamp()\<close> look at.
\<close>

datatype datetime = Datetime (dt_seconds: int) (dt_microsecond: nat)

definition replace_microsecond :: "datetime \<Rightarrow> nat \<Rightarrow> datetime" where
  "replace_microsecond d us = Datetime (dt_seconds d) us"

text \<open>
  A Python \<^verbatim>\<open>float\<close> is a double; it is kept as the real number it denotes.  What
  \<^verbatim>\<open>timestamp()\<close> returns for a \<open>datetime\<close>, and the rounding of a difference of two
  doubles, are not computed here: both are parameters of the model (see \<open>env\<close> below).
\<close>

text \<open>
  Modelled from the spec: \<^verbatim>\<open>DailyQuest\<close> (\<^verbatim>\<open>tasks.daily.keywords\<close>) is not among the
  sources.  The record layer only tests \<^verbatim>\<open>isinstance(q, DailyQuest)\<close> and reads
  \<^verbatim>\<open>q.name\<close>, a string.
\<close>

datatype DailyQuest = DailyQuest (quest_id: int) (quest_name: string)

datatype pyval =
    PNone
  | PBool bool
  | PInt int
  | PStr string
  | PDatetime datetime
  | PQuest DailyQuest
  | PFunction
  | PProperty
  | PCachedProperty

datatype pytype =
  NoneType | BoolT | IntT | StrT | DatetimeT | DailyQuestT | FunctionT | PropertyT | CachedPropertyT

fun type_of :: "pyval \<Rightarrow> pytype" where
  "type_of PNone = NoneType"
| "type_of (PBool _) = BoolT"
| "type_of (PInt _) = IntT"
| "type_of (PStr _) = StrT"
| "type_of (PDatetime _) = DatetimeT"
| "type_of (PQuest _) = DailyQuestT"
| "type_of PFunction = FunctionT"
| "type_of PProperty = PropertyT"
| "type_of PCachedProperty = CachedPropertyT"

text \<open>\<^verbatim>\<open>type(value).__name__\<close>\<close>

fun type_name :: "pytype \<Rightarrow> string" where
  "type_name NoneType = ''NoneType''"
| "type_name BoolT = ''bool''"
| "type_name IntT = ''int''"
| "type_name StrT = ''str''"
| "type_name DatetimeT = ''datetime''"
| "type_name DailyQuestT = ''DailyQuest''"
| "type_name FunctionT = ''function''"
| "type_name PropertyT = ''property''"
| "type_name CachedPropertyT = ''cached_property''"

text \<open>\<^verbatim>\<open>isinstance(value, t)\<close>: \<^verbatim>\<open>bool\<close> is a subclass of \<^verbatim>\<open>int\<close>.\<close>

definition isinstance :: "pyval \<Rightarrow> pytype \<Rightarrow> bool" where
  "isinstance value t \<longleftrightarrow> type_of value = t \<or> (type_of value = BoolT \<and> t = IntT)"

text \<open>Truth value of an object, as \<^verbatim>\<open>if not name\<close> tests it.\<close>

fun truthy :: "pyval \<Rightarrow> bool" where
  "truthy PNone = False"
| "truthy (PBool b) = b"
| "truthy (PInt i) = (i \<noteq> 0)"
| "truthy (PStr s) = (s \<noteq> [])"
| "truthy _ = True"

text \<open>\<^verbatim>\<open>str(n)\<close> for an integer: its decimal digits, with a sign when negative.\<close>

definition digit_char :: "nat \<Rightarrow> char" where
  "digit_char n = ''0123456789'' ! n"

fun str_nat :: "nat \<Rightarrow> string" where
  "str_nat n = (if n < 10 then [digit_char n] else str_nat (n div 10) @ [digit_char (n mod 10)])"

declare str_nat.simps [simp del]

definition str_int :: "int \<Rightarrow> string" where
  "str_int i = (if i < 0 then CHR ''-'' # str_nat (nat (- i)) else str_nat (nat i))"

definition startswith :: "string \<Rightarrow> string \<Rightarrow> bool" where
  "startswith s p \<longleftrightarrow> take (length p) s = p"

section \<open>Errors\<close>

text \<open>
  Exceptions are values: an operation returns \<open>Inl e\<close> when the Python raises \<open>e\<close>, and
  the run it models ends there.  \<open>AssertionError\<close> is what the failed \<^verbatim>\<open>assert\<close> of
  \<^verbatim>\<open>_stored\<close> raises.
\<close>

datatype error = AssertionError | TypeError | AttributeError | KeyError

section \<open>Classes and their attributes\<close>

text \<open>
  A class object is given by its method resolution order: the class's own namespace first,
  then those of its bases in the order Python linearises them.  \<^verbatim>\<open>object\<close> and the
  entries Python adds to every class namespace (\<^verbatim>\<open>__module__\<close>, \<^verbatim>\<open>__dict__\<close>, ...) are
  left out: all their names begin with an underscore, which \<^verbatim>\<open>iter_attribute\<close> skips
  before looking at anything else.
\<close>

type_synonym namespace = "(string \<times> pyval) list"
type_synonym pyclass = "namespace list"

text \<open>\<^verbatim>\<open>dir(cls)\<close>: the names of the class and of its bases, sorted, each once.\<close>

definition dir :: "pyclass \<Rightarrow> string list" where
  "dir cls = sort (remdups (concat (map (map fst) cls)))"

text \<open>\<^verbatim>\<open>getattr(cls, attr)\<close>: the first namespace of the resolution order that has the name.\<close>

definition getattr :: "pyclass \<Rightarrow> string \<Rightarrow> pyval option" where
  "getattr cls attr = map_of (concat cls) attr"

text \<open>
  \<^verbatim>\<open>iter_attribute\<close>, the generator read as the list of what it yields.  Every name of
  \<open>dir cls\<close> has a value, so the \<open>None\<close> branch (an \<^verbatim>\<open>AttributeError\<close> in Python) is
  never taken from \<open>iter_attribute\<close>.
\<close>

fun iter_names :: "pyclass \<Rightarrow> string list \<Rightarrow> (string \<times> pyval) list" where
  "iter_names cls [] = []"
| "iter_names cls (attr # rest) =
     (if startswith attr ''_'' then iter_names cls rest
      else case getattr cls attr of
             None \<Rightarrow> iter_names cls rest
           | Some value \<Rightarrow>
               if type_name (type_of value) \<in> set [''function'', ''property'']
               then iter_names cls rest
               else (attr, value) # iter_names cls rest)"

definition iter_attribute :: "pyclass \<Rightarrow> (string \<times> pyval) list" where
  "iter_attribute cls = iter_names cls (dir cls)"

text \<open>
  Modelled from the spec: \<^verbatim>\<open>DEFAULT_TIME\<close> is imported from \<^verbatim>\<open>module.config.utils\<close>,
  which is not among the sources; the spec calls it a fixed sentinel "never" instant.  No
  theorem below depends on which instant it is.
\<close>

definition DEFAULT_TIME :: datetime where
  "DEFAULT_TIME = Datetime 0 0"

text \<open>The class bodies, member by member in source order.\<close>

definition StoredBase_body :: namespace where
  "StoredBase_body =
     [(''time'', PDatetime DEFAULT_TIME),
      (''__init__'', PFunction),
      (''_name'', PCachedProperty),
      (''_bind'', PFunction),
      (''_stored'', PCachedProperty),
      (''_attrs'', PCachedProperty),
      (''__setattr__'', PFunction),
      (''__getattribute__'', PFunction),
      (''is_expired'', PFunction),
      (''show'', PFunction),
      (''dashboard'', PFunction),
      (''readable_time'', PFunction)]"

definition StoredExpiredAt0400_body :: namespace where
  "StoredExpiredAt0400_body = [(''is_expired'', PFunction)]"

definition StoredInt_body :: namespace where
  "StoredInt_body = [(''value'', PInt 0)]"

definition StoredCounter_body :: namespace where
  "StoredCounter_body =
     [(''current'', PInt 0),
      (''total'', PInt 0),
      (''set'', PFunction),
      (''to_counter'', PFunction),
      (''is_full'', PFunction),
      (''get_remain'', PFunction)]"

definition StoredDailyActivity_body :: namespace where
  "StoredDailyActivity_body = [(''set'', PFunction), (''_stored'', PProperty)]"

definition StoredDaily_body :: namespace where
  "StoredDaily_body =
     [(''quest1'', PStr ''''),
      (''quest2'', PStr ''''),
      (''quest3'', PStr ''''),
      (''quest4'', PStr ''''),
      (''quest5'', PStr ''''),
      (''quest6'', PStr ''''),
      (''load_quests'', PFunction),
      (''write_quests'', PFunction)]"

definition StoredDungeonDouble_body :: namespace where
  "StoredDungeonDouble_body = [(''calyx'', PInt 0), (''relic'', PInt 0)]"

datatype stored_class =
    StoredBase
  | StoredExpiredAt0400
  | StoredInt
  | StoredCounter
  | StoredDailyActivity
  | StoredDaily
  | StoredDungeonDouble

text \<open>The class object of each record type, from its \<^verbatim>\<open>class\<close> statement.\<close>

fun class_of :: "stored_class \<Rightarrow> pyclass" where
  "class_of StoredBase = [StoredBase_body]"
| "class_of StoredExpiredAt0400 = [StoredExpiredAt0400_body, StoredBase_body]"
| "class_of StoredInt = [StoredInt_body, StoredBase_body]"
| "class_of StoredCounter = [StoredCounter_body, StoredBase_body]"
| "class_of StoredDailyActivity =
     [StoredDailyActivity_body, StoredCounter_body, StoredExpiredAt0400_body, StoredBase_body]"
| "class_of StoredDaily = [StoredDaily_body, StoredExpiredAt0400_body, StoredBase_body]"
| "class_of StoredDungeonDouble =
     [StoredDungeonDouble_body, StoredExpiredAt0400_body, StoredBase_body]"

section \<open>The configuration object and the record instance\<close>

text \<open>
  A snapshot, a schema and a persisted tree node are Python dictionaries; they are
  association lists here, updated with \<open>AList.update\<close>, which like a Python \<^verbatim>\<open>dict\<close>
  overwrites a present key in place and appends an absent one.
\<close>

type_synonym pydict = "(string \<times> pyval) list"

definition dict_get :: "pydict \<Rightarrow> string \<Rightarrow> pyval \<Rightarrow> pyval" where
  "dict_get d k dflt = (case map_of d k of None \<Rightarrow> dflt | Some v \<Rightarrow> v)"

text \<open>
  The configuration collaborator, as far as the record layer touches it: the tree it reads
  (\<open>data\<close>), the \<open>modified\<close> dictionary it writes and the \<open>auto_update\<close> flag.  The nodes
  of the tree are addressed by their whole dotted key.
\<close>

record config =
  data :: "(string \<times> pydict) list"
  modified :: "(string \<times> pydict) list"
  auto_update :: bool

text \<open>
  Modelled from the spec: \<^verbatim>\<open>deep_get\<close> (\<^verbatim>\<open>module.config.utils\<close>) is not among the
  sources; it is the dotted-path lookup that returns \<open>dflt\<close> when a path segment is
  absent.
\<close>

definition deep_get :: "(string \<times> pydict) list \<Rightarrow> string \<Rightarrow> pydict \<Rightarrow> pydict" where
  "deep_get d keys dflt = (case map_of d keys of None \<Rightarrow> dflt | Some node \<Rightarrow> node)"

text \<open>
  What the record layer calls but does not define is a parameter of the model:
  \<^verbatim>\<open>datetime.fromisoformat\<close> on a string (\<open>None\<close> for its \<^verbatim>\<open>ValueError\<close>), the
  configuration's \<^verbatim>\<open>update()\<close>, \<^verbatim>\<open>DailyQuest.find\<close> (\<open>None\<close> for its
  \<^verbatim>\<open>ScriptError\<close>), the double that \<^verbatim>\<open>datetime.timestamp()\<close> returns, and the
  subtraction of two doubles, which rounds the difference to a double.
\<close>

record env =
  fromisoformat :: "string \<Rightarrow> datetime option"
  config_update :: "config \<Rightarrow> config"
  quest_find :: "pyval \<Rightarrow> DailyQuest option"
  datetime_timestamp :: "datetime \<Rightarrow> real"
  float_sub :: "real \<Rightarrow> real \<Rightarrow> real"

text \<open>
  Modelled from the spec: the scoped batching of \<^verbatim>\<open>multi_set()\<close> belongs to the
  configuration object, which is not among the sources.  Entering suspends the flush on
  every set; leaving the outermost scope flushes once and restores the flag.
\<close>

definition multi_set_enter :: "config \<Rightarrow> bool \<times> config" where
  "multi_set_enter cfg = (auto_update cfg, cfg\<lparr>auto_update := False\<rparr>)"

definition multi_set_exit :: "env \<Rightarrow> bool \<Rightarrow> config \<Rightarrow> config" where
  "multi_set_exit E outermost cfg =
     (if outermost then (config_update E cfg)\<lparr>auto_update := True\<rparr> else cfg)"

text \<open>
  An instance: its class, \<^verbatim>\<open>_key\<close>, \<^verbatim>\<open>_config\<close> (\<open>None\<close> until \<^verbatim>\<open>_bind\<close>), the cache
  of \<^verbatim>\<open>_stored\<close> (\<open>None\<close> until the first successful hydration) and the ordinary
  instance attributes.  The configuration object is held in the instance, so an operation
  returns the instance together with the configuration it has changed.
\<close>

record inst =
  obj_cls :: stored_class
  obj_key :: string
  obj_config :: "config option"
  obj_stored :: "pydict option"
  obj_dict :: pydict

definition StoredBase_init :: "stored_class \<Rightarrow> string \<Rightarrow> inst" where
  "StoredBase_init c k =
     \<lparr>obj_cls = c, obj_key = k, obj_config = None, obj_stored = None, obj_dict = []\<rparr>"

definition bind :: "inst \<Rightarrow> config \<Rightarrow> inst" where
  "bind self cfg = self\<lparr>obj_config := Some cfg\<rparr>"

text \<open>\<^verbatim>\<open>datetime.now().replace(microsecond=0)\<close>, from the clock reading.\<close>

definition now :: "datetime \<Rightarrow> datetime" where
  "now clock = replace_microsecond clock 0"

text \<open>
  The body of \<^verbatim>\<open>_attrs\<close>, for an instance whose class \<^verbatim>\<open>self.__class__\<close> is \<open>cls\<close>;
  any class object will do.
\<close>

definition class_attrs :: "pyclass \<Rightarrow> pydict" where
  "class_attrs cls =
     fold (\<lambda>(attr, value) a. AList.update attr value a)
       (iter_attribute cls)
       [(''time'', PDatetime DEFAULT_TIME)]"

text \<open>
  \<^verbatim>\<open>self._attrs\<close>.  Its value depends on the class alone, so the cache of the
  \<^verbatim>\<open>cached_property\<close> cannot be observed and is not modelled.
\<close>

definition attrs :: "inst \<Rightarrow> pydict" where
  "attrs self = class_attrs (class_of (obj_cls self))"

section \<open>Hydration\<close>

text \<open>
  The body of the loop of \<^verbatim>\<open>_stored\<close> for one attribute.  \<^verbatim>\<open>datetime.fromisoformat\<close>
  raises \<^verbatim>\<open>TypeError\<close> when its argument is not a string, and \<^verbatim>\<open>ValueError\<close> when the
  string does not parse; only the latter is caught.  The calls of the logger change
  nothing the model observes and are left out.
\<close>

definition validate :: "env \<Rightarrow> string \<Rightarrow> pyval \<Rightarrow> pyval \<Rightarrow> error + pyval" where
  "validate E attr value dflt =
     (if attr = ''time'' then
        (if isinstance value DatetimeT then Inr value
         else case value of
                PStr s \<Rightarrow> (case fromisoformat E s of Some d \<Rightarrow> Inr (PDatetime d) | None \<Rightarrow> Inr dflt)
              | _ \<Rightarrow> Inl TypeError)
      else if isinstance value (type_of dflt) then Inr value
      else Inr dflt)"

fun hydrate :: "env \<Rightarrow> pydict \<Rightarrow> pydict \<Rightarrow> pydict \<Rightarrow> error + pydict" where
  "hydrate E stored [] out = Inr out"
| "hydrate E stored ((attr, dflt) # rest) out =
     (case validate E attr (dict_get stored attr dflt) dflt of
        Inl e \<Rightarrow> Inl e
      | Inr value \<Rightarrow> hydrate E stored rest (AList.update attr value out))"

text \<open>
  \<^verbatim>\<open>StoredBase._stored\<close>, a \<^verbatim>\<open>functools.cached_property\<close>: the cached dictionary if
  there is one, else the assertion and the hydration, whose result is cached.
\<close>

definition StoredBase_stored :: "env \<Rightarrow> inst \<Rightarrow> error + (pydict \<times> inst)" where
  "StoredBase_stored E self =
     (case obj_stored self of
        Some stored \<Rightarrow> Inr (stored, self)
      | None \<Rightarrow>
          (case obj_config self of
             None \<Rightarrow> Inl AssertionError
           | Some cfg \<Rightarrow>
               (case hydrate E (deep_get (data cfg) (obj_key self) []) (attrs self) [] of
                  Inl e \<Rightarrow> Inl e
                | Inr out \<Rightarrow> Inr (out, self\<lparr>obj_stored := Some out\<rparr>))))"

text \<open>
  \<^verbatim>\<open>StoredDailyActivity._stored\<close>, a property: it writes \<^verbatim>\<open>total\<close> into the cached
  dictionary on every read.
\<close>

definition StoredDailyActivity_stored :: "env \<Rightarrow> inst \<Rightarrow> error + (pydict \<times> inst)" where
  "StoredDailyActivity_stored E self =
     (case StoredBase_stored E self of
        Inl e \<Rightarrow> Inl e
      | Inr (stored, self1) \<Rightarrow>
          (let stored1 = AList.update ''total'' (PInt 500) stored
           in Inr (stored1, self1\<lparr>obj_stored := Some stored1\<rparr>)))"

text \<open>\<^verbatim>\<open>self._stored\<close>, resolved by the class of the instance.\<close>

definition get_stored :: "env \<Rightarrow> inst \<Rightarrow> error + (pydict \<times> inst)" where
  "get_stored E self =
     (if obj_cls self = StoredDailyActivity then StoredDailyActivity_stored E self
      else StoredBase_stored E self)"

section \<open>Attribute access\<close>

text \<open>
  \<^verbatim>\<open>__setattr__\<close>; \<open>clock\<close> is what \<^verbatim>\<open>datetime.now()\<close> reads during the call.  The
  dictionary registered in \<^verbatim>\<open>modified\<close> is the snapshot as it is at that moment.  For a name
  outside the schema the value goes to the instance's own attributes.
\<close>

definition setattr :: "env \<Rightarrow> inst \<Rightarrow> string \<Rightarrow> pyval \<Rightarrow> datetime \<Rightarrow> error + inst" where
  "setattr E self key value clock =
     (if key \<in> set (map fst (attrs self)) then
        (case get_stored E self of
           Inl e \<Rightarrow> Inl e
         | Inr (stored, self1) \<Rightarrow>
             (let stored1 = AList.update ''time'' (PDatetime (now clock)) stored;
                  stored2 = AList.update key value stored1;
                  self2 = self1\<lparr>obj_stored := Some stored2\<rparr>
              in case obj_config self2 of
                   None \<Rightarrow> Inl AttributeError
                 | Some cfg \<Rightarrow>
                     (let cfg1 = cfg\<lparr>modified := AList.update (obj_key self2) stored2 (modified cfg)\<rparr>;
                          cfg2 = (if auto_update cfg1 then config_update E cfg1 else cfg1)
                      in Inr (self2\<lparr>obj_config := Some cfg2\<rparr>))))
      else Inr (self\<lparr>obj_dict := AList.update key value (obj_dict self)\<rparr>))"

text \<open>
  \<^verbatim>\<open>__getattribute__\<close>.  A schema name reads the snapshot; any other name is ordinary
  attribute access, through the instance's own attributes and then the class.
\<close>

definition getattribute :: "env \<Rightarrow> inst \<Rightarrow> string \<Rightarrow> error + (pyval \<times> inst)" where
  "getattribute E self item =
     (if \<not> startswith item ''_'' \<and> item \<in> set (map fst (attrs self)) then
        (case get_stored E self of
           Inl e \<Rightarrow> Inl e
         | Inr (stored, self1) \<Rightarrow>
             (case map_of stored item of
                None \<Rightarrow> Inl KeyError
              | Some value \<Rightarrow> Inr (value, self1)))
      else
        (case map_of (obj_dict self) item of
           Some value \<Rightarrow> Inr (value, self)
         | None \<Rightarrow>
             (case getattr (class_of (obj_cls self)) item of
                Some value \<Rightarrow> Inr (value, self)
              | None \<Rightarrow> Inl AttributeError)))"

section \<open>Readable time\<close>

text \<open>
  The branch chain of \<^verbatim>\<open>readable_time\<close> on \<open>diff\<close>, the double that
  \<^verbatim>\<open>self.time.timestamp() - time.time()\<close> evaluates to.  Comparing a double with an
  integer constant is exact.  \<^verbatim>\<open>diff // d\<close> is reached with \<open>0 \<le> diff < 129600\<close> only,
  where the floor division of doubles returns the floor of the quotient exactly:
  \<^verbatim>\<open>fmod\<close> is exact and \<open>diff\<close> minus the remainder is a multiple of \<open>d\<close> below
  \<open>2\<^sup>5\<^sup>3\<close>.  In the source the last branch carries the comment \<^verbatim>\<open># > 15 days\<close>, while
  \<open>129600\<close> seconds are a day and a half; the model follows the code.
\<close>

definition readable_time_diff :: "real \<Rightarrow> string \<times> string" where
  "readable_time_diff diff =
     (if diff < - 1 then ('''', ''TimeError'')
      else if diff < 60 then ('''', ''JustNow'')
      else if diff < 3600 then (str_int \<lfloor>diff / 60\<rfloor>, ''MinutesAgo'')
      else if diff < 86400 then (str_int \<lfloor>diff / 86400\<rfloor>, ''HoursAgo'')
      else if diff < 129600 then (str_int \<lfloor>diff / 129600\<rfloor>, ''DaysAgo'')
      else ('''', ''LongTimeAgo''))"

text \<open>
  \<^verbatim>\<open>readable_time\<close>; \<open>time_time\<close> is the double that \<^verbatim>\<open>time.time()\<close> returns.  Only a
  \<^verbatim>\<open>datetime\<close> has a \<^verbatim>\<open>timestamp\<close> method.
\<close>

definition readable_time :: "env \<Rightarrow> inst \<Rightarrow> real \<Rightarrow> error + ((string \<times> string) \<times> inst)" where
  "readable_time E self time_time =
     (case getattribute E self ''time'' of
        Inl e \<Rightarrow> Inl e
      | Inr (value, self1) \<Rightarrow>
          (case value of
             PDatetime t \<Rightarrow>
               Inr (readable_time_diff (float_sub E (datetime_timestamp E t) time_time), self1)
           | _ \<Rightarrow> Inl AttributeError))"

section \<open>Counters\<close>

definition and_then :: "error + 'a \<Rightarrow> ('a \<Rightarrow> error + 'b) \<Rightarrow> error + 'b" where
  "and_then r f = (case r of Inl e \<Rightarrow> Inl e | Inr x \<Rightarrow> f x)"

text \<open>
  \<^verbatim>\<open>with self._config.multi_set(): body\<close>.  Reading \<^verbatim>\<open>multi_set\<close> from an unbound
  instance's \<^verbatim>\<open>None\<close> raises \<^verbatim>\<open>AttributeError\<close>.
\<close>

definition with_multi_set :: "env \<Rightarrow> inst \<Rightarrow> (inst \<Rightarrow> error + inst) \<Rightarrow> error + inst" where
  "with_multi_set E self body =
     (case obj_config self of
        None \<Rightarrow> Inl AttributeError
      | Some cfg \<Rightarrow>
          (case multi_set_enter cfg of
             (outermost, cfg1) \<Rightarrow>
               (case body (self\<lparr>obj_config := Some cfg1\<rparr>) of
                  Inl e \<Rightarrow> Inl e
                | Inr self2 \<Rightarrow>
                    Inr (self2\<lparr>obj_config := map_option (multi_set_exit E outermost) (obj_config self2)\<rparr>))))"

text \<open>\<^verbatim>\<open>StoredCounter.set\<close>; \<open>clock i\<close> is the reading of the clock at the \<open>i\<close>-th assignment.\<close>

definition StoredCounter_set :: "env \<Rightarrow> inst \<Rightarrow> pyval \<Rightarrow> pyval \<Rightarrow> (nat \<Rightarrow> datetime) \<Rightarrow> error + inst" where
  "StoredCounter_set E self current total' clock =
     with_multi_set E self (\<lambda>s0.
       and_then (setattr E s0 ''current'' current (clock 0)) (\<lambda>s1.
       setattr E s1 ''total'' total' (clock 1)))"

definition StoredDailyActivity_set :: "env \<Rightarrow> inst \<Rightarrow> pyval \<Rightarrow> (nat \<Rightarrow> datetime) \<Rightarrow> error + inst" where
  "StoredDailyActivity_set E self current clock = StoredCounter_set E self current (PInt 500) clock"

section \<open>Daily quests\<close>

text \<open>The loop of \<^verbatim>\<open>load_quests\<close> over the six names it has read.\<close>

fun resolve_names :: "env \<Rightarrow> pyval list \<Rightarrow> DailyQuest list" where
  "resolve_names E [] = []"
| "resolve_names E (name # rest) =
     (if \<not> truthy name then resolve_names E rest
      else case quest_find E name of
             Some quest \<Rightarrow> quest # resolve_names E rest
           | None \<Rightarrow> resolve_names E rest)"

definition load_quests :: "env \<Rightarrow> inst \<Rightarrow> error + (DailyQuest list \<times> inst)" where
  "load_quests E self =
     and_then (getattribute E self ''quest1'') (\<lambda>(n1, s1).
     and_then (getattribute E s1 ''quest2'') (\<lambda>(n2, s2).
     and_then (getattribute E s2 ''quest3'') (\<lambda>(n3, s3).
     and_then (getattribute E s3 ''quest4'') (\<lambda>(n4, s4).
     and_then (getattribute E s4 ''quest5'') (\<lambda>(n5, s5).
     and_then (getattribute E s5 ''quest6'') (\<lambda>(n6, s6).
     Inr (resolve_names E [n1, n2, n3, n4, n5, n6], s6)))))))"

text \<open>\<^verbatim>\<open>q.name if isinstance(q, DailyQuest) else q\<close>\<close>

definition quest_to_name :: "pyval \<Rightarrow> pyval" where
  "quest_to_name q = (case q of PQuest quest \<Rightarrow> PStr (quest_name quest) | _ \<Rightarrow> q)"

text \<open>\<^verbatim>\<open>quests[i]\<close> for an index that is not negative; \<open>None\<close> is the \<^verbatim>\<open>IndexError\<close>.\<close>

definition py_index :: "'a list \<Rightarrow> nat \<Rightarrow> 'a option" where
  "py_index xs i = (if i < length xs then Some (xs ! i) else None)"

text \<open>
  One \<^verbatim>\<open>try: self.questN = quests[i]\<close> / \<^verbatim>\<open>except IndexError: self.questN = ''\<close> block.
\<close>

definition write_slot :: "env \<Rightarrow> pyval list \<Rightarrow> inst \<Rightarrow> string \<Rightarrow> nat \<Rightarrow> datetime \<Rightarrow> error + inst" where
  "write_slot E quests self attr i clock =
     (case py_index quests i of
        Some q \<Rightarrow> setattr E self attr q clock
      | None \<Rightarrow> setattr E self attr (PStr '''') clock)"

definition write_quests :: "env \<Rightarrow> inst \<Rightarrow> pyval list \<Rightarrow> (nat \<Rightarrow> datetime) \<Rightarrow> error + inst" where
  "write_quests E self quests0 clock =
     (let quests = map quest_to_name quests0
      in with_multi_set E self (\<lambda>s0.
           and_then (write_slot E quests s0 ''quest1'' 0 (clock 0)) (\<lambda>s1.
           and_then (write_slot E quests s1 ''quest2'' 1 (clock 1)) (\<lambda>s2.
           and_then (write_slot E quests s2 ''quest3'' 2 (clock 2)) (\<lambda>s3.
           and_then (write_slot E quests s3 ''quest4'' 3 (clock 3)) (\<lambda>s4.
           and_then (write_slot E quests s4 ''quest5'' 4 (clock 4)) (\<lambda>s5.
           write_slot E quests s5 ''quest6'' 5 (clock 5))))))))"

section \<open>Notions of the specification\<close>

text \<open>
  The specification's schema: the members of a type that carry a public name and are
  neither methods nor computed properties, in the order of \<open>dir\<close>.
\<close>

definition is_method_or_property :: "pyval \<Rightarrow> bool" where
  "is_method_or_property v \<longleftrightarrow> v = PFunction \<or> v = PProperty \<or> v = PCachedProperty"

definition public_stored_members :: "pyclass \<Rightarrow> (string \<times> pyval) list" where
  "public_stored_members cls =
     concat (map (\<lambda>a. case getattr cls a of
                         None \<Rightarrow> []
                       | Some v \<Rightarrow>
                           if startswith a ''_'' \<or> is_method_or_property v then [] else [(a, v)])
                 (dir cls))"

text \<open>The schema as the claim has it: \<open>time\<close> with the "never" default, then those members.\<close>

definition claimed_schema :: "pyclass \<Rightarrow> (string \<times> pyval) list" where
  "claimed_schema cls =
     (''time'', PDatetime DEFAULT_TIME) #
     filter (\<lambda>(a, v). a \<noteq> ''time'') (public_stored_members cls)"

text \<open>
  What the code keeps instead: the members with a public name whose value is neither a
  function object nor a property object, in the order of \<open>dir\<close>; and for \<open>time\<close> the value
  the type itself gives it, when it is such a member.
\<close>

definition is_function_or_property :: "pyval \<Rightarrow> bool" where
  "is_function_or_property v \<longleftrightarrow> v = PFunction \<or> v = PProperty"

definition kept_members :: "pyclass \<Rightarrow> (string \<times> pyval) list" where
  "kept_members cls =
     concat (map (\<lambda>a. case getattr cls a of
                         None \<Rightarrow> []
                       | Some v \<Rightarrow>
                           if startswith a ''_'' \<or> is_function_or_property v then [] else [(a, v)])
                 (dir cls))"

definition time_default :: "pyclass \<Rightarrow> pyval" where
  "time_default cls =
     (case map_of (kept_members cls) ''time'' of
        None \<Rightarrow> PDatetime DEFAULT_TIME
      | Some v \<Rightarrow> v)"

text \<open>The specification's invariant of a snapshot: its keys are those of the schema.\<close>

definition snapshot_inv :: "inst \<Rightarrow> bool" where
  "snapshot_inv self \<longleftrightarrow>
     (case obj_stored self of
        None \<Rightarrow> True
      | Some stored \<Rightarrow> map fst stored = map fst (attrs self))"

text \<open>\<open>set(attr, v)\<close> followed immediately by \<open>get(attr)\<close>; the value read.\<close>

definition set_then_get :: "env \<Rightarrow> inst \<Rightarrow> string \<Rightarrow> pyval \<Rightarrow> datetime \<Rightarrow> error + pyval" where
  "set_then_get E self attr v clock =
     (case setattr E self attr v clock of
        Inl e \<Rightarrow> Inl e
      | Inr self1 \<Rightarrow>
          (case getattribute E self1 attr of
             Inl e \<Rightarrow> Inl e
           | Inr (value, self2) \<Rightarrow> Inr value))"

definition quest_slots :: "string list" where
  "quest_slots = [''quest1'', ''quest2'', ''quest3'', ''quest4'', ''quest5'', ''quest6'']"

text \<open>
  What \<open>write_quests\<close> is to leave in the slot of index \<open>i\<close>: the name of the \<open>i\<close>-th item,
  or the empty string past the end of the list.
\<close>

definition slot_value :: "pyval list \<Rightarrow> nat \<Rightarrow> pyval" where
  "slot_value quests i = (if i < length quests then quest_to_name (quests ! i) else PStr '''')"

text \<open>
  A persisted node whose \<open>time\<close> entry is absent, a \<open>datetime\<close> or a string: the entries
  that the \<open>time\<close> branch of the hydration can read.
\<close>

definition time_entry_readable :: "pydict \<Rightarrow> bool" where
  "time_entry_readable node \<longleftrightarrow>
     (case map_of node ''time'' of
        None \<Rightarrow> True
      | Some (PDatetime t) \<Rightarrow> True
      | Some (PStr s) \<Rightarrow> True
      | Some _ \<Rightarrow> False)"

subsection \<open>Concrete collaborators and records\<close>

text \<open>
  The doubles between \<open>2\<^sup>3\<^sup>0\<close> and \<open>2\<^sup>3\<^sup>1\<close>, where the instants of the years 2004 to 2038
  lie, are the multiples of \<open>2\<^sup>-\<^sup>2\<^sup>2\<close>: \<open>datetime_timestamp\<close> below returns the one nearest
  to seconds plus microseconds.  A difference of two such doubles is a multiple of
  \<open>2\<^sup>-\<^sup>2\<^sup>2\<close> below \<open>2\<^sup>3\<^sup>1\<close>, hence a double itself, so that on them the subtraction of
  doubles is the subtraction of reals.
\<close>

definition example_env :: env where
  "example_env =
     \<lparr>fromisoformat =
        (\<lambda>s. if s = ''2024-01-01 04:00:00'' then Some (Datetime 1704081600 0) else None),
      config_update = (\<lambda>cfg. cfg\<lparr>data := modified cfg @ data cfg, modified := []\<rparr>),
      quest_find =
        (\<lambda>name. case name of
                   PStr s \<Rightarrow>
                     if s = ''Quest_A'' then Some (DailyQuest 1 ''Quest_A'')
                     else if s = ''Quest_B'' then Some (DailyQuest 2 ''Quest_B'')
                     else None
                 | _ \<Rightarrow> None),
      datetime_timestamp =
        (\<lambda>d. real_of_int (dt_seconds d) +
              real_of_int (round (real (dt_microsecond d) * 4194304 / 1000000)) / 4194304),
      float_sub = (\<lambda>a b. a - b)\<rparr>"

definition example_config :: config where
  "example_config =
     \<lparr>data =
        [(''Daily.Activity'',
          [(''time'', PStr ''2024-01-01 04:00:00''), (''current'', PInt 120), (''total'', PInt 9)]),
         (''Daily.Power'', [(''time'', PStr ''yesterday''), (''value'', PStr ''240'')]),
         (''Daily.Broken'', [(''time'', PInt 0), (''value'', PInt 3)]),
         (''Daily.Lost'', [(''time'', PNone), (''current'', PInt 3), (''total'', PInt 9)])],
      modified = [],
      auto_update = True\<rparr>"

definition example_activity :: inst where
  "example_activity = bind (StoredBase_init StoredDailyActivity ''Daily.Activity'') example_config"

definition example_power :: inst where
  "example_power = bind (StoredBase_init StoredInt ''Daily.Power'') example_config"

definition example_broken :: inst where
  "example_broken = bind (StoredBase_init StoredInt ''Daily.Broken'') example_config"

definition example_daily :: inst where
  "example_daily = bind (StoredBase_init StoredDaily ''Daily.Quest'') example_config"

text \<open>
  Two more records whose persisted \<open>time\<close> is no string: a daily-activity record on a node
  where it is \<^verbatim>\<open>None\<close>, and a daily-quest record on the node where it is the integer \<open>0\<close>.
\<close>

definition example_broken_activity :: inst where
  "example_broken_activity =
     bind (StoredBase_init StoredDailyActivity ''Daily.Lost'') example_config"

definition example_clock :: "nat \<Rightarrow> datetime" where
  "example_clock i = Datetime (1704090000 + int i) 0"

definition example_broken_daily :: inst where
  "example_broken_daily = bind (StoredBase_init StoredDaily ''Daily.Broken'') example_config"

text \<open>
  A record type outside the source file: a subclass of \<^verbatim>\<open>StoredBase\<close> that gives \<open>time\<close>
  the default \<^verbatim>\<open>None\<close> and has a public \<^verbatim>\<open>cached_property\<close> named \<open>label\<close>.
\<close>

definition example_subclass :: pyclass where
  "example_subclass =
     [[(''time'', PNone), (''label'', PCachedProperty)],
      StoredBase_body]"

section \<open>The schema of each record type\<close>

lemma schema_of_class:
  "fold (\<lambda>(attr, value) a. AList.update attr value a) (iter_attribute (class_of c))
     [(''time'', PDatetime DEFAULT_TIME)]
   = (''time'', PDatetime DEFAULT_TIME) #
     (case c of
        StoredBase \<Rightarrow> []
      | StoredExpiredAt0400 \<Rightarrow> []
      | StoredInt \<Rightarrow> [(''value'', PInt 0)]
      | StoredCounter \<Rightarrow> [(''current'', PInt 0), (''total'', PInt 0)]
      | StoredDailyActivity \<Rightarrow> [(''current'', PInt 0), (''total'', PInt 0)]
      | StoredDaily \<Rightarrow>
          [(''quest1'', PStr ''''), (''quest2'', PStr ''''), (''quest3'', PStr ''''),
           (''quest4'', PStr ''''), (''quest5'', PStr ''''), (''quest6'', PStr '''')]
      | StoredDungeonDouble \<Rightarrow> [(''calyx'', PInt 0), (''relic'', PInt 0)])"
  by (cases c; hypsubst; code_simp)

lemma attrs_eq:
  "attrs self = (''time'', PDatetime DEFAULT_TIME) #
     (case obj_cls self of
        StoredBase \<Rightarrow> []
      | StoredExpiredAt0400 \<Rightarrow> []
      | StoredInt \<Rightarrow> [(''value'', PInt 0)]
      | StoredCounter \<Rightarrow> [(''current'', PInt 0), (''total'', PInt 0)]
      | StoredDailyActivity \<Rightarrow> [(''current'', PInt 0), (''total'', PInt 0)]
      | StoredDaily \<Rightarrow>
          [(''quest1'', PStr ''''), (''quest2'', PStr ''''), (''quest3'', PStr ''''),
           (''quest4'', PStr ''''), (''quest5'', PStr ''''), (''quest6'', PStr '''')]
      | StoredDungeonDouble \<Rightarrow> [(''calyx'', PInt 0), (''relic'', PInt 0)])"
  unfolding attrs_def class_attrs_def by (rule schema_of_class)

lemma attrs_head:
  "\<exists>rest. attrs self = (''time'', PDatetime DEFAULT_TIME) # rest \<and> ''time'' \<notin> set (map fst rest)"
  by (cases "obj_cls self") (simp_all add: attrs_eq)

lemma attrs_distinct: "distinct (map fst (attrs self))"
  by (cases "obj_cls self") (simp_all add: attrs_eq)

lemma time_in_attrs: "''time'' \<in> set (map fst (attrs self))"
  by (simp add: attrs_eq)

lemma attrs_public: "a \<in> set (map fst (attrs self)) \<Longrightarrow> \<not> startswith a ''_''"
  by (cases "obj_cls self") (auto simp add: attrs_eq startswith_def)

section \<open>Validation\<close>

text \<open>Only the \<open>time\<close> branch can raise, and only \<^verbatim>\<open>TypeError\<close>.\<close>

lemma validate_not_time:
  "attr \<noteq> ''time'' \<Longrightarrow> validate E attr value dflt = Inr (if isinstance value (type_of dflt) then value else dflt)"
  by (simp add: validate_def)

lemma validate_error: "validate E attr value dflt = Inl e \<Longrightarrow> e = TypeError"
  by (auto simp add: validate_def split: if_splits pyval.splits option.splits)

lemma hydrate_error: "hydrate E stored as out = Inl e \<Longrightarrow> e = TypeError"
proof (induction as arbitrary: out)
  case Nil
  then show ?case by simp
next
  case (Cons a as)
  obtain attr dflt where a: "a = (attr, dflt)" by (cases a)
  show ?case
  proof (cases "validate E attr (dict_get stored attr dflt) dflt")
    case (Inl e')
    with Cons.prems a have "e = e'" by simp
    with Inl show ?thesis by (simp add: validate_error)
  next
    case (Inr v)
    with Cons.prems a have "hydrate E stored as (AList.update attr v out) = Inl e" by simp
    then show ?thesis by (rule Cons.IH)
  qed
qed

lemma hydrate_keys:
  "hydrate E stored as out = Inr out' \<Longrightarrow> distinct (map fst out @ map fst as)
     \<Longrightarrow> map fst out' = map fst out @ map fst as"
proof (induction as arbitrary: out)
  case Nil
  then show ?case by simp
next
  case (Cons a as)
  obtain attr dflt where a: "a = (attr, dflt)" by (cases a)
  from Cons.prems(1) a obtain v where
    h: "hydrate E stored as (AList.update attr v out) = Inr out'"
    by (auto split: sum.splits)
  from Cons.prems(2) a have k: "map fst (AList.update attr v out) = map fst out @ [attr]"
    by (simp add: update_keys)
  from Cons.prems(2) a have "distinct (map fst (AList.update attr v out) @ map fst as)"
    by (simp add: k)
  from Cons.IH [OF h this] show ?case by (simp add: k a)
qed

lemma hydrate_no_time:
  "''time'' \<notin> set (map fst as) \<Longrightarrow> \<exists>out'. hydrate E stored as out = Inr out'"
proof (induction as arbitrary: out)
  case Nil
  then show ?case by simp
next
  case (Cons a as)
  obtain attr dflt where a: "a = (attr, dflt)" by (cases a)
  with Cons.prems have "attr \<noteq> ''time''" by auto
  with Cons a show ?case by (simp add: validate_not_time)
qed

text \<open>
  Type-mismatch fallback: an attribute other than \<open>time\<close> is hydrated to the persisted
  value when that is an instance of the type of the default, and to the default otherwise.
\<close>

lemma hydrate_value:
  assumes "hydrate E node as out = Inr out'"
    and "distinct (map fst as)"
    and "(attr, dflt) \<in> set as"
    and "attr \<noteq> ''time''"
  shows "map_of out' attr =
           Some (if isinstance (dict_get node attr dflt) (type_of dflt) then dict_get node attr dflt
                 else dflt)"
  using assms
proof (induction as arbitrary: out)
  case Nil
  then show ?case by simp
next
  case (Cons x as)
  obtain a d where x: "x = (a, d)" by (cases x)
  from Cons.prems(1) x obtain v where
    v: "validate E a (dict_get node a d) d = Inr v" and
    h: "hydrate E node as (AList.update a v out) = Inr out'"
    by (auto split: sum.splits)
  show ?case
  proof (cases "(attr, dflt) \<in> set as")
    case True
    with Cons.IH [OF h] Cons.prems show ?thesis by simp
  next
    case False
    with Cons.prems x have e: "a = attr" "d = dflt" by auto
    from Cons.prems(2) x e have n: "attr \<notin> fst ` set as" by auto
    have keep: "map_of out2 attr = map_of out1 attr"
      if "hydrate E node bs out1 = Inr out2" "attr \<notin> fst ` set bs" for bs out1 out2
      using that
    proof (induction bs arbitrary: out1)
      case Nil
      then show ?case by simp
    next
      case (Cons y bs)
      obtain b c where y: "y = (b, c)" by (cases y)
      from Cons.prems y obtain w where
        "hydrate E node bs (AList.update b w out1) = Inr out2" and "b \<noteq> attr" and "attr \<notin> fst ` set bs"
        by (auto split: sum.splits)
      with Cons.IH [of "AList.update b w out1"] show ?case
        by (simp add: update_conv')
    qed
    from keep [OF h n] v e Cons.prems(4) show ?thesis
      by (simp add: update_conv' validate_not_time)
  qed
qed

section \<open>Reading and writing the snapshot\<close>

lemma get_stored_unbound:
  "obj_config self = None \<Longrightarrow> obj_stored self = None \<Longrightarrow> get_stored E self = Inl AssertionError"
  by (simp add: get_stored_def StoredDailyActivity_stored_def StoredBase_stored_def)

lemma StoredBase_stored_bound:
  "obj_config self \<noteq> None \<Longrightarrow> StoredBase_stored E self \<noteq> Inl AssertionError"
  by (auto simp add: StoredBase_stored_def split: option.splits sum.splits dest: hydrate_error)

lemma get_stored_bound:
  "obj_config self \<noteq> None \<Longrightarrow> get_stored E self \<noteq> Inl AssertionError"
  using StoredBase_stored_bound [of self E]
  by (auto simp add: get_stored_def StoredDailyActivity_stored_def Let_def split: sum.splits)

lemma StoredBase_stored_state:
  "StoredBase_stored E self = Inr (stored, self1) \<Longrightarrow> self1 = self\<lparr>obj_stored := Some stored\<rparr>"
  by (auto simp add: StoredBase_stored_def split: option.splits sum.splits)

lemma get_stored_state:
  "get_stored E self = Inr (stored, self1) \<Longrightarrow> self1 = self\<lparr>obj_stored := Some stored\<rparr>"
  by (auto simp add: get_stored_def StoredDailyActivity_stored_def Let_def
        split: if_splits sum.splits dest: StoredBase_stored_state)

lemma get_stored_cached:
  "obj_stored self = Some stored \<Longrightarrow>
   get_stored E self =
     (if obj_cls self = StoredDailyActivity
      then Inr (AList.update ''total'' (PInt 500) stored,
                self\<lparr>obj_stored := Some (AList.update ''total'' (PInt 500) stored)\<rparr>)
      else Inr (stored, self))"
  by (simp add: get_stored_def StoredDailyActivity_stored_def StoredBase_stored_def Let_def)

lemma get_stored_total:
  "obj_cls self = StoredDailyActivity \<Longrightarrow> get_stored E self = Inr (stored, self1) \<Longrightarrow>
   map_of stored ''total'' = Some (PInt 500)"
  by (auto simp add: get_stored_def StoredDailyActivity_stored_def Let_def update_conv'
        split: sum.splits)

lemma setattr_eq:
  assumes "key \<in> set (map fst (attrs self))"
    and "get_stored E self = Inr (stored, self1)"
    and "obj_config self = Some cfg"
  shows "setattr E self key value clock =
     Inr (self\<lparr>obj_stored :=
                 Some (AList.update key value (AList.update ''time'' (PDatetime (now clock)) stored)),
               obj_config :=
                 Some (if auto_update cfg
                       then config_update E
                              (cfg\<lparr>modified := AList.update (obj_key self)
                                 (AList.update key value
                                    (AList.update ''time'' (PDatetime (now clock)) stored))
                                 (modified cfg)\<rparr>)
                       else cfg\<lparr>modified := AList.update (obj_key self)
                                 (AList.update key value
                                    (AList.update ''time'' (PDatetime (now clock)) stored))
                                 (modified cfg)\<rparr>)\<rparr>)"
proof -
  from assms(2) have s1: "self1 = self\<lparr>obj_stored := Some stored\<rparr>" by (rule get_stored_state)
  show ?thesis
    using assms by (simp add: setattr_def Let_def s1)
qed

lemma setattr_unbound:
  "key \<in> set (map fst (attrs self)) \<Longrightarrow> obj_config self = None \<Longrightarrow> obj_stored self = None \<Longrightarrow>
   setattr E self key value clock = Inl AssertionError"
  by (simp add: setattr_def get_stored_unbound)

lemma setattr_bound:
  "obj_config self \<noteq> None \<Longrightarrow> setattr E self key value clock \<noteq> Inl AssertionError"
  using get_stored_bound [of self E]
  by (auto simp add: setattr_def Let_def split: sum.splits option.splits dest!: get_stored_state)

lemma getattribute_unbound:
  "item \<in> set (map fst (attrs self)) \<Longrightarrow> obj_config self = None \<Longrightarrow> obj_stored self = None \<Longrightarrow>
   getattribute E self item = Inl AssertionError"
  by (simp add: getattribute_def get_stored_unbound attrs_public)

lemma getattribute_bound:
  "item \<in> set (map fst (attrs self)) \<Longrightarrow> obj_config self \<noteq> None \<Longrightarrow>
   getattribute E self item \<noteq> Inl AssertionError"
  using get_stored_bound [of self E]
  by (auto simp add: getattribute_def attrs_public split: sum.splits option.splits)

lemma getattribute_eq:
  "item \<in> set (map fst (attrs self)) \<Longrightarrow> get_stored E self = Inr (stored, self1) \<Longrightarrow>
   map_of stored item = Some value \<Longrightarrow> getattribute E self item = Inr (value, self1)"
  by (simp add: getattribute_def attrs_public)

section \<open>Properties of the record layer\<close>

subsection \<open>Readable time\<close>

lemma readable_time_eq:
  "getattribute E self ''time'' = Inr (PDatetime t, self1) \<Longrightarrow>
   readable_time E self time_time =
     Inr (readable_time_diff (float_sub E (datetime_timestamp E t) time_time), self1)"
  by (simp add: readable_time_def)

text \<open>
  Claim C1.  When the \<open>time\<close> attribute of a record reads as a \<open>datetime\<close>,
  \<open>readable_time\<close> returns the pair that the threshold table gives for \<open>elapsed\<close>, the
  stored time minus now in seconds as the program has it: the double that
  \<^verbatim>\<open>self.time.timestamp() - time.time()\<close> evaluates to.  Below \<open>-1\<close> the empty magnitude
  with \<open>TimeError\<close>; from \<open>-1\<close> up to \<open>60\<close> the empty magnitude with \<open>JustNow\<close>; from \<open>60\<close>
  up to \<open>3600\<close> the floor of \<open>elapsed / 60\<close> with \<open>MinutesAgo\<close>; from \<open>3600\<close> up to \<open>86400\<close>
  the floor of \<open>elapsed / 86400\<close> with \<open>HoursAgo\<close>; from \<open>86400\<close> up to \<open>129600\<close> the floor
  of \<open>elapsed / 129600\<close> with \<open>DaysAgo\<close>; from \<open>129600\<close> on the empty magnitude with
  \<open>LongTimeAgo\<close>.  The boundary values \<open>-1\<close>, \<open>60\<close>, \<open>3600\<close>, \<open>86400\<close> and \<open>129600\<close>
  fall into the bucket that starts there.
\<close>

theorem readable_time_threshold_table:
  fixes elapsed :: real
  assumes "getattribute E self ''time'' = Inr (PDatetime t, self1)"
    and "elapsed = float_sub E (datetime_timestamp E t) time_time"
  shows "readable_time E self time_time = Inr (readable_time_diff elapsed, self1) \<and>
     (elapsed < - 1 \<longrightarrow> readable_time_diff elapsed = ('''', ''TimeError'')) \<and>
     (- 1 \<le> elapsed \<and> elapsed < 60 \<longrightarrow> readable_time_diff elapsed = ('''', ''JustNow'')) \<and>
     (60 \<le> elapsed \<and> elapsed < 3600 \<longrightarrow>
        readable_time_diff elapsed = (str_int \<lfloor>elapsed / 60\<rfloor>, ''MinutesAgo'')) \<and>
     (3600 \<le> elapsed \<and> elapsed < 86400 \<longrightarrow>
        readable_time_diff elapsed = (str_int \<lfloor>elapsed / 86400\<rfloor>, ''HoursAgo'')) \<and>
     (86400 \<le> elapsed \<and> elapsed < 129600 \<longrightarrow>
        readable_time_diff elapsed = (str_int \<lfloor>elapsed / 129600\<rfloor>, ''DaysAgo'')) \<and>
     (129600 \<le> elapsed \<longrightarrow> readable_time_diff elapsed = ('''', ''LongTimeAgo'')) \<and>
     (elapsed = - 1 \<longrightarrow> snd (readable_time_diff elapsed) = ''JustNow'') \<and>
     (elapsed = 60 \<longrightarrow> snd (readable_time_diff elapsed) = ''MinutesAgo'') \<and>
     (elapsed = 3600 \<longrightarrow> snd (readable_time_diff elapsed) = ''HoursAgo'') \<and>
     (elapsed = 86400 \<longrightarrow> snd (readable_time_diff elapsed) = ''DaysAgo'') \<and>
     (elapsed = 129600 \<longrightarrow> snd (readable_time_diff elapsed) = ''LongTimeAgo'')"
  using assms by (simp add: readable_time_eq readable_time_diff_def)

text \<open>
  The table at work on a daily-activity record stamped at second 1704081600, read two
  seconds later, one second later, and 60, 3600, 86400 and 129600 seconds earlier.
\<close>

theorem readable_time_threshold_table_witness:
  "getattribute example_env example_activity ''time'' =
     Inr (PDatetime (Datetime 1704081600 0),
          example_activity\<lparr>obj_stored :=
            Some [(''time'', PDatetime (Datetime 1704081600 0)), (''current'', PInt 120),
                  (''total'', PInt 500)]\<rparr>) \<and>
   map_sum id fst (readable_time example_env example_activity 1704081602) = Inr ('''', ''TimeError'') \<and>
   map_sum id fst (readable_time example_env example_activity 1704081601) = Inr ('''', ''JustNow'') \<and>
   map_sum id fst (readable_time example_env example_activity 1704081540) = Inr (''1'', ''MinutesAgo'') \<and>
   map_sum id fst (readable_time example_env example_activity 1704078000) = Inr (''0'', ''HoursAgo'') \<and>
   map_sum id fst (readable_time example_env example_activity 1703995200) = Inr (''0'', ''DaysAgo'') \<and>
   map_sum id fst (readable_time example_env example_activity 1703952000) = Inr ('''', ''LongTimeAgo'')"
proof -
  have h: "getattribute example_env example_activity ''time'' =
     Inr (PDatetime (Datetime 1704081600 0),
          example_activity\<lparr>obj_stored :=
            Some [(''time'', PDatetime (Datetime 1704081600 0)), (''current'', PInt 120),
                  (''total'', PInt 500)]\<rparr>)"
    by code_simp
  have d: "float_sub example_env (datetime_timestamp example_env (Datetime 1704081600 0)) x =
      1704081600 - x" for x
    by (simp add: example_env_def)
  note table = readable_time_threshold_table [OF h refl, unfolded d]
  have "str_int 1 = ''1''" "str_int 0 = ''0''" by code_simp+
  with h table [of 1704081602] table [of 1704081601] table [of 1704081540]
    table [of 1704078000] table [of 1703995200] table [of 1703952000]
  show ?thesis by simp
qed

text \<open>
  A stored time with microseconds, one tick of the double above the boundary: at
  1704081599.999999 seconds, read at the double \<open>1704081540 - 2\<^sup>-\<^sup>2\<^sup>0\<close>.  The stored time
  lies less than 60 seconds after the reading, but its timestamp is the double
  \<open>1704081600 - 2\<^sup>-\<^sup>2\<^sup>0\<close>, and the program, which sees the difference \<open>60\<close>, answers with
  one minute.
\<close>

lemma readable_time_rounded_timestamp:
  "readable_time_diff
     (float_sub example_env (datetime_timestamp example_env (Datetime 1704081599 999999))
        (1786859004887039 / 1048576)) = (''1'', ''MinutesAgo'') \<and>
   (1704081599 + 999999 / 1000000 :: real) - 1786859004887039 / 1048576 < 60"
proof -
  have r: "round (65535934464 / 15625 :: real) = 4194300"
    by (simp add: round_def)
  have "float_sub example_env (datetime_timestamp example_env (Datetime 1704081599 999999))
        (1786859004887039 / 1048576) = 60"
    by (simp add: example_env_def r)
  moreover have "str_int 1 = ''1''" by code_simp
  ultimately show ?thesis by (simp add: readable_time_diff_def)
qed

text \<open>Two days and a bit are a long time ago already.\<close>

lemma readable_time_diff_two_days: "readable_time_diff 200000 = ('''', ''LongTimeAgo'')"
  by (simp add: readable_time_diff_def)

subsection \<open>The keys of a snapshot\<close>

lemma attrs_update [simp]:
  "attrs (obj_stored_update f self) = attrs self"
  "attrs (obj_config_update g self) = attrs self"
  "attrs (obj_dict_update h self) = attrs self"
  by (simp_all add: attrs_def)

lemma get_stored_keys:
  assumes "snapshot_inv self" and "get_stored E self = Inr (stored, self1)"
  shows "map fst stored = map fst (attrs self)"
proof -
  have base: "map fst s = map fst (attrs self)" if "StoredBase_stored E self = Inr (s, s1)" for s s1
  proof (cases "obj_stored self")
    case None
    with that obtain cfg :: config where
      "hydrate E (deep_get (data cfg) (obj_key self) []) (attrs self) [] = Inr s"
      by (auto simp add: StoredBase_stored_def split: option.splits sum.splits)
    from hydrate_keys [OF this] attrs_distinct [of self] show ?thesis by simp
  next
    case (Some c)
    with that have "s = c" by (simp add: StoredBase_stored_def)
    with Some assms(1) show ?thesis by (simp add: snapshot_inv_def)
  qed
  show ?thesis
  proof (cases "obj_cls self = StoredDailyActivity")
    case False
    with assms(2) base show ?thesis by (simp add: get_stored_def)
  next
    case True
    with assms(2) obtain s s1 where
      s: "StoredBase_stored E self = Inr (s, s1)" and
      st: "stored = AList.update ''total'' (PInt 500) s"
      by (auto simp add: get_stored_def StoredDailyActivity_stored_def Let_def split: sum.splits)
    from base [OF s] True show ?thesis by (simp add: st update_keys attrs_eq)
  qed
qed

lemma snapshot_inv_init: "snapshot_inv (bind (StoredBase_init c k) cfg)"
  by (simp add: snapshot_inv_def bind_def StoredBase_init_def)

lemma snapshot_inv_get_stored:
  assumes "snapshot_inv self" and "get_stored E self = Inr (stored, self1)"
  shows "snapshot_inv self1"
  using get_stored_keys [OF assms] get_stored_state [OF assms(2)]
  by (simp add: snapshot_inv_def)

lemma snapshot_inv_setattr:
  assumes "snapshot_inv self" and "setattr E self key value clock = Inr self2"
  shows "snapshot_inv self2"
proof (cases "key \<in> set (map fst (attrs self))")
  case False
  with assms show ?thesis by (auto simp add: setattr_def snapshot_inv_def split: option.splits)
next
  case True
  with assms(2) obtain stored self1 and cfg :: config where
    g: "get_stored E self = Inr (stored, self1)" and c: "obj_config self = Some cfg"
    by (auto simp add: setattr_def Let_def split: sum.splits option.splits dest!: get_stored_state)
  from get_stored_keys [OF assms(1) g] True time_in_attrs [of self]
  have "map fst (AList.update key value (AList.update ''time'' (PDatetime (now clock)) stored))
      = map fst (attrs self)"
    by (simp add: update_keys)
  with assms(2) show ?thesis
    unfolding setattr_eq [OF True g c] by (auto simp add: snapshot_inv_def split: option.splits)
qed

subsection \<open>Hydration of a malformed tree\<close>

text \<open>
  Claim C2 says that hydration never raises, whatever is persisted under the key.  The
  code catches the \<^verbatim>\<open>ValueError\<close> of a string that does not parse, but a persisted
  \<open>time\<close> that is no string at all, here the integer \<open>0\<close> under \<open>Daily.Broken\<close>, makes
  \<^verbatim>\<open>datetime.fromisoformat\<close> raise \<^verbatim>\<open>TypeError\<close>, which escapes from the first read of
  any attribute.
\<close>

theorem hydration_type_error_on_non_string_time:
  "get_stored example_env example_broken = Inl TypeError \<and>
   getattribute example_env example_broken ''value'' = Inl TypeError"
  by code_simp

subsection \<open>Binding before access\<close>

text \<open>
  Claim C3.  Reading or writing a schema attribute of a record that has not been bound
  (no configuration, and so no cached snapshot) fails with the \<open>AssertionError\<close> of
  \<^verbatim>\<open>_stored\<close>; once \<open>bind\<close> has given it a configuration, neither fails with that
  error.
\<close>

theorem field_access_needs_bind:
  assumes "attr \<in> set (map fst (attrs self))"
  shows "(obj_config self = None \<and> obj_stored self = None \<longrightarrow>
            getattribute E self attr = Inl AssertionError \<and>
            setattr E self attr v clock = Inl AssertionError) \<and>
         getattribute E (bind self cfg) attr \<noteq> Inl AssertionError \<and>
         setattr E (bind self cfg) attr v clock \<noteq> Inl AssertionError \<and>
         (obj_config self \<noteq> None \<longrightarrow>
            getattribute E self attr \<noteq> Inl AssertionError \<and>
            setattr E self attr v clock \<noteq> Inl AssertionError)"
  using assms
  by (simp add: getattribute_unbound setattr_unbound getattribute_bound setattr_bound bind_def)

text \<open>An integer record before and after it is bound.\<close>

theorem field_access_needs_bind_witness:
  "''value'' \<in> set (map fst (attrs (StoredBase_init StoredInt ''Daily.Power''))) \<and>
   obj_config (StoredBase_init StoredInt ''Daily.Power'') = None \<and>
   obj_stored (StoredBase_init StoredInt ''Daily.Power'') = None \<and>
   getattribute example_env (StoredBase_init StoredInt ''Daily.Power'') ''value'' = Inl AssertionError \<and>
   setattr example_env (StoredBase_init StoredInt ''Daily.Power'') ''value'' (PInt 1) (Datetime 5 0)
     = Inl AssertionError \<and>
   getattribute example_env (bind (StoredBase_init StoredInt ''Daily.Power'') example_config) ''value''
     \<noteq> Inl AssertionError \<and>
   setattr example_env (bind (StoredBase_init StoredInt ''Daily.Power'') example_config) ''value''
     (PInt 1) (Datetime 5 0) \<noteq> Inl AssertionError"
proof -
  have a: "''value'' \<in> set (map fst (attrs (StoredBase_init StoredInt ''Daily.Power'')))"
    by code_simp
  have u: "obj_config (StoredBase_init StoredInt ''Daily.Power'') = None"
    "obj_stored (StoredBase_init StoredInt ''Daily.Power'') = None"
    by (simp_all add: StoredBase_init_def)
  from a u field_access_needs_bind [OF a, of example_env "PInt 1" "Datetime 5 0" example_config]
  show ?thesis by simp
qed

text \<open>
  The two states of the claim are all there is: a new record is unbound, an unbound record
  stays so under the writes that succeed on it, and a bound record stays bound.
\<close>

lemma unbound_init:
  "obj_config (StoredBase_init c k) = None \<and> obj_stored (StoredBase_init c k) = None"
  by (simp add: StoredBase_init_def)

lemma setattr_keeps_bound:
  "setattr E self key value clock = Inr self2 \<Longrightarrow> obj_config self \<noteq> None \<Longrightarrow> obj_config self2 \<noteq> None"
  by (auto simp add: setattr_def Let_def split: if_splits sum.splits option.splits)

lemma getattribute_keeps_bound:
  "getattribute E self item = Inr (value, self2) \<Longrightarrow> obj_config self \<noteq> None \<Longrightarrow> obj_config self2 \<noteq> None"
  by (auto simp add: getattribute_def split: if_splits sum.splits option.splits
        dest!: get_stored_state)

lemma setattr_keeps_unbound:
  "setattr E self key value clock = Inr self2 \<Longrightarrow> obj_config self = None \<Longrightarrow> obj_stored self = None
   \<Longrightarrow> obj_config self2 = None \<and> obj_stored self2 = None"
  by (auto simp add: setattr_def Let_def get_stored_unbound split: if_splits)

subsection \<open>The effect of a write\<close>

text \<open>Unfolding the concrete records, and running the model on them.\<close>

lemmas example_defs = example_power_def example_activity_def example_broken_def example_daily_def
  example_broken_activity_def example_broken_daily_def
  bind_def StoredBase_init_def example_config_def example_env_def

lemmas run_defs = setattr_def getattribute_def get_stored_def StoredBase_stored_def
  StoredDailyActivity_stored_def deep_get_def attrs_eq validate_def dict_get_def isinstance_def
  now_def replace_microsecond_def Let_def startswith_def

text \<open>
  The effect of a write to a schema attribute of a bound record whose snapshot can be
  read: it stamps \<open>time\<close> with the clock reading cut to whole seconds, then writes the value
  under the attribute; the snapshot it leaves has every key of the schema and is what
  \<open>modified\<close> holds under the record's key; and \<open>update\<close> is applied to the configuration
  exactly when \<open>auto_update\<close> is set.
\<close>

lemma setattr_effect:
  assumes "key \<in> set (map fst (attrs self))"
    and "obj_config self = Some cfg"
    and "get_stored E self = Inr (stored, self1)"
    and "snapshot_inv self"
  shows "let stamped = AList.update ''time'' (PDatetime (now clock)) stored;
             snapshot = AList.update key value stamped;
             registered = cfg\<lparr>modified := AList.update (obj_key self) snapshot (modified cfg)\<rparr>
         in now clock = Datetime (dt_seconds clock) 0 \<and>
            map_of stamped ''time'' = Some (PDatetime (now clock)) \<and>
            map_of snapshot key = Some value \<and>
            map fst snapshot = map fst (attrs self) \<and>
            map_of (modified registered) (obj_key self) = Some snapshot \<and>
            setattr E self key value clock =
              Inr (self\<lparr>obj_stored := Some snapshot,
                        obj_config := Some (if auto_update cfg then config_update E registered
                                            else registered)\<rparr>)"
proof -
  have k: "map fst stored = map fst (attrs self)"
    using assms(4,3) by (rule get_stored_keys)
  with assms(1) time_in_attrs [of self]
  have "map fst (AList.update key value (AList.update ''time'' (PDatetime (now clock)) stored))
      = map fst (attrs self)"
    by (simp add: update_keys)
  then show ?thesis
    by (simp add: Let_def setattr_eq [OF assms(1,3,2)] update_conv' now_def
          replace_microsecond_def)
qed

text \<open>
  An integer record whose persisted \<open>time\<close> does not parse and whose persisted \<open>value\<close> is
  a string: both default, and the write of \<open>7\<close> at a quarter past the second is flushed at
  once.
\<close>

lemma setattr_effect_example:
  "''value'' \<in> set (map fst (attrs example_power)) \<and>
   obj_config example_power = Some example_config \<and>
   get_stored example_env example_power =
     Inr ([(''time'', PDatetime DEFAULT_TIME), (''value'', PInt 0)],
          example_power\<lparr>obj_stored := Some [(''time'', PDatetime DEFAULT_TIME), (''value'', PInt 0)]\<rparr>) \<and>
   snapshot_inv example_power \<and>
   setattr example_env example_power ''value'' (PInt 7) (Datetime 1704090000 250000) =
     Inr (example_power
            \<lparr>obj_stored := Some [(''time'', PDatetime (Datetime 1704090000 0)), (''value'', PInt 7)],
             obj_config :=
               Some (example_config
                       \<lparr>data := (''Daily.Power'',
                                  [(''time'', PDatetime (Datetime 1704090000 0)), (''value'', PInt 7)])
                                # data example_config,
                        modified := []\<rparr>)\<rparr>)"
proof -
  have h1: "''value'' \<in> set (map fst (attrs example_power))"
    by (simp add: example_defs run_defs)
  have h2: "obj_config example_power = Some example_config"
    by (simp add: example_power_def bind_def)
  have h3: "get_stored example_env example_power =
     Inr ([(''time'', PDatetime DEFAULT_TIME), (''value'', PInt 0)],
          example_power\<lparr>obj_stored := Some [(''time'', PDatetime DEFAULT_TIME), (''value'', PInt 0)]\<rparr>)"
    by (simp add: example_defs run_defs)
  have h4: "snapshot_inv example_power"
    by (simp add: snapshot_inv_def example_defs)
  from setattr_effect [OF h1 h2 h3 h4, of "Datetime 1704090000 250000" "PInt 7"]
  have "setattr example_env example_power ''value'' (PInt 7) (Datetime 1704090000 250000) =
     Inr (example_power
            \<lparr>obj_stored := Some [(''time'', PDatetime (Datetime 1704090000 0)), (''value'', PInt 7)],
             obj_config :=
               Some (example_config
                       \<lparr>data := (''Daily.Power'',
                                  [(''time'', PDatetime (Datetime 1704090000 0)), (''value'', PInt 7)])
                                # data example_config,
                        modified := []\<rparr>)\<rparr>)"
    by (simp add: example_defs run_defs)
  with h1 h2 h3 h4 show ?thesis by simp
qed

text \<open>
  After a write to a schema attribute other than \<open>time\<close> of a bound record whose snapshot
  can be read, the snapshot's \<open>time\<close> is the automatic stamp, the clock reading cut to whole
  seconds; after a write to \<open>time\<close> itself it is the value written, because the stamp comes
  first and the write overwrites it.
\<close>

lemma setattr_time_stamp:
  assumes "key \<in> set (map fst (attrs self))"
    and "obj_config self = Some cfg"
    and "get_stored E self = Inr (stored, self1)"
  shows "let snapshot = AList.update key value (AList.update ''time'' (PDatetime (now clock)) stored)
         in map_sum id obj_stored (setattr E self key value clock) = Inr (Some snapshot) \<and>
            (key \<noteq> ''time'' \<longrightarrow> map_of snapshot ''time'' = Some (PDatetime (now clock))) \<and>
            (key = ''time'' \<longrightarrow> map_of snapshot ''time'' = Some value)"
  by (simp add: Let_def setattr_eq [OF assms(1,3,2)] update_conv')

text \<open>A write to \<open>current\<close> and a write to \<open>time\<close> on the daily-activity record.\<close>

lemma setattr_time_stamp_example:
  "map_sum id obj_stored
     (setattr example_env example_activity ''current'' (PInt 130) (Datetime 1704090000 250000)) =
     Inr (Some [(''time'', PDatetime (Datetime 1704090000 0)), (''current'', PInt 130),
                (''total'', PInt 500)]) \<and>
   map_sum id obj_stored
     (setattr example_env example_activity ''time'' (PDatetime (Datetime 77 5))
        (Datetime 1704090000 250000)) =
     Inr (Some [(''time'', PDatetime (Datetime 77 5)), (''current'', PInt 120),
                (''total'', PInt 500)])"
proof -
  have h1: "''current'' \<in> set (map fst (attrs example_activity))"
    and h1': "''time'' \<in> set (map fst (attrs example_activity))"
    by (simp_all add: example_defs run_defs)
  have h2: "obj_config example_activity = Some example_config"
    by (simp add: example_activity_def bind_def)
  have h3: "get_stored example_env example_activity =
     Inr ([(''time'', PDatetime (Datetime 1704081600 0)), (''current'', PInt 120), (''total'', PInt 500)],
          example_activity\<lparr>obj_stored :=
            Some [(''time'', PDatetime (Datetime 1704081600 0)), (''current'', PInt 120),
                  (''total'', PInt 500)]\<rparr>)"
    by (simp add: example_defs run_defs)
  from setattr_time_stamp [OF h1 h2 h3, of "PInt 130" "Datetime 1704090000 250000"]
    setattr_time_stamp [OF h1' h2 h3, of "PDatetime (Datetime 77 5)" "Datetime 1704090000 250000"]
  show ?thesis
    by (simp add: Let_def now_def replace_microsecond_def)
qed

text \<open>
  Claim C5 says that on every bound record each write to a schema attribute stamps
  \<open>time\<close>, writes the value, registers the snapshot in \<open>modified\<close> and flushes when
  \<open>auto_update\<close> is set.  The integer record on the node \<open>Daily.Broken\<close> is bound and
  \<open>value\<close> is in its schema, but its persisted \<open>time\<close> is the integer \<open>0\<close>:
  \<^verbatim>\<open>__setattr__\<close> reads \<^verbatim>\<open>_stored\<close> first, the hydration raises the \<^verbatim>\<open>TypeError\<close> that
  \<^verbatim>\<open>except ValueError\<close> does not catch, and nothing is stamped, written or registered.
\<close>

theorem setattr_raises_on_unreadable_time:
  "obj_config example_broken = Some example_config \<and>
   ''value'' \<in> set (map fst (attrs example_broken)) \<and>
   map_of (deep_get (data example_config) (obj_key example_broken) []) ''time'' = Some (PInt 0) \<and>
   setattr example_env example_broken ''value'' (PInt 7) (Datetime 1704090000 250000) =
     Inl TypeError"
  by (simp add: example_defs run_defs)

text \<open>
  Claim C9 says that on every bound record a write to an attribute other than \<open>time\<close>
  leaves the automatic stamp in the snapshot's \<open>time\<close>, and a write to \<open>time\<close> leaves the
  value written.  On the same record neither write leaves a snapshot at all: both raise
  the \<^verbatim>\<open>TypeError\<close> of the hydration.
\<close>

theorem setattr_leaves_no_stamp_on_unreadable_time:
  "map_sum id obj_stored
     (setattr example_env example_broken ''value'' (PInt 7) (example_clock 0)) = Inl TypeError \<and>
   map_sum id obj_stored
     (setattr example_env example_broken ''time'' (PDatetime (Datetime 77 5)) (example_clock 0)) =
     Inl TypeError"
  by (simp add: example_defs run_defs)

subsection \<open>Round trip\<close>

text \<open>
  Claim C4, as amended.  On a bound record whose snapshot can be read, writing \<open>v\<close> to a
  schema attribute and reading the attribute back returns \<open>v\<close>, whatever the type of
  \<open>v\<close>; except for \<open>total\<close> of a daily-activity record, which reads \<open>500\<close> whatever was
  written.
\<close>

theorem set_then_get_roundtrip:
  assumes "attr \<in> set (map fst (attrs self))"
    and "obj_config self = Some cfg"
    and "get_stored E self = Inr (stored, self1)"
  shows "set_then_get E self attr v clock =
           Inr (if obj_cls self = StoredDailyActivity \<and> attr = ''total'' then PInt 500 else v)"
  using assms(1)
  by (simp add: set_then_get_def setattr_eq [OF assms(1,3,2)] getattribute_def attrs_public
        get_stored_cached update_conv')

text \<open>Writing \<open>7\<close> to the integer record and reading it back.\<close>

theorem set_then_get_roundtrip_witness:
  "set_then_get example_env example_power ''value'' (PInt 7) (Datetime 1704090000 250000) = Inr (PInt 7)"
proof -
  have h1: "''value'' \<in> set (map fst (attrs example_power))"
    by (simp add: example_defs run_defs)
  have h2: "obj_config example_power = Some example_config"
    by (simp add: example_power_def bind_def)
  have h3: "get_stored example_env example_power =
     Inr ([(''time'', PDatetime DEFAULT_TIME), (''value'', PInt 0)],
          example_power\<lparr>obj_stored := Some [(''time'', PDatetime DEFAULT_TIME), (''value'', PInt 0)]\<rparr>)"
    by (simp add: example_defs run_defs)
  from set_then_get_roundtrip [OF h1 h2 h3, of "PInt 7" "Datetime 1704090000 250000"]
  show ?thesis by (simp add: example_defs)
qed

text \<open>
  The claim as stated fails on the daily-activity record: \<open>7\<close> is an integer like the
  default of \<open>total\<close>, and after it is written \<open>total\<close> reads \<open>500\<close>.
\<close>

theorem set_then_get_total_counterexample:
  "''total'' \<in> set (map fst (attrs example_activity)) \<and>
   isinstance (PInt 7) (type_of (dict_get (attrs example_activity) ''total'' PNone)) \<and>
   set_then_get example_env example_activity ''total'' (PInt 7) (Datetime 1704090000 0) = Inr (PInt 500) \<and>
   PInt 500 \<noteq> PInt 7"
  by (simp add: set_then_get_def example_defs run_defs)

subsection \<open>When the snapshot can be read\<close>

text \<open>
  Hydration returns whenever the persisted \<open>time\<close> is absent, a \<open>datetime\<close> or a string;
  every other attribute degrades to its default instead of raising.  A cached snapshot is
  read without hydration.
\<close>

lemma hydrate_readable:
  assumes "time_entry_readable node"
  shows "\<exists>out. hydrate E node (attrs self) [] = Inr out"
proof -
  obtain rest where a: "attrs self = (''time'', PDatetime DEFAULT_TIME) # rest"
    and r: "''time'' \<notin> set (map fst rest)"
    using attrs_head by blast
  from assms have "\<exists>v. validate E ''time'' (dict_get node ''time'' (PDatetime DEFAULT_TIME))
      (PDatetime DEFAULT_TIME) = Inr v"
    by (auto simp add: time_entry_readable_def validate_def dict_get_def isinstance_def
          split: option.splits pyval.splits)
  then obtain v where v: "validate E ''time'' (dict_get node ''time'' (PDatetime DEFAULT_TIME))
      (PDatetime DEFAULT_TIME) = Inr v" ..
  from hydrate_no_time [OF r, of E node "AList.update ''time'' v []"] show ?thesis
    by (simp add: a v)
qed

lemma get_stored_readable:
  assumes "obj_config self = Some cfg"
    and "obj_stored self = None \<longrightarrow> time_entry_readable (deep_get (data cfg) (obj_key self) [])"
  shows "\<exists>stored. get_stored E self = Inr (stored, self\<lparr>obj_stored := Some stored\<rparr>)"
proof -
  have "\<exists>s. StoredBase_stored E self = Inr (s, self\<lparr>obj_stored := Some s\<rparr>)"
  proof (cases "obj_stored self")
    case None
    with assms(2) hydrate_readable [of "deep_get (data cfg) (obj_key self) []" E self]
    obtain out where "hydrate E (deep_get (data cfg) (obj_key self) []) (attrs self) [] = Inr out"
      by blast
    with None assms(1) show ?thesis by (simp add: StoredBase_stored_def)
  next
    case (Some s)
    then show ?thesis by (simp add: StoredBase_stored_def)
  qed
  then show ?thesis
    by (auto simp add: get_stored_def StoredDailyActivity_stored_def Let_def)
qed

text \<open>
  Conversely, the first read of a bound record whose persisted \<open>time\<close> is anything else
  raises \<^verbatim>\<open>TypeError\<close>.
\<close>

lemma hydrate_unreadable:
  assumes "\<not> time_entry_readable node"
  shows "hydrate E node (attrs self) [] = Inl TypeError"
proof -
  obtain rest where a: "attrs self = (''time'', PDatetime DEFAULT_TIME) # rest"
    using attrs_head by blast
  from assms have "validate E ''time'' (dict_get node ''time'' (PDatetime DEFAULT_TIME))
      (PDatetime DEFAULT_TIME) = Inl TypeError"
    by (auto simp add: time_entry_readable_def validate_def dict_get_def isinstance_def
          split: option.splits pyval.splits)
  then show ?thesis by (simp add: a)
qed

lemma get_stored_unreadable:
  assumes "obj_config self = Some cfg" and "obj_stored self = None"
    and "\<not> time_entry_readable (deep_get (data cfg) (obj_key self) [])"
  shows "get_stored E self = Inl TypeError"
  using assms hydrate_unreadable [OF assms(3), of E self]
  by (simp add: get_stored_def StoredDailyActivity_stored_def StoredBase_stored_def)

text \<open>Hydration reads the tree only: another configuration with the same tree gives the same snapshot.\<close>

lemma get_stored_rebind:
  assumes "get_stored E self = Inr (stored, self1)" and "obj_config self = Some cfg"
    and "data cfg' = data cfg"
  shows "get_stored E (self\<lparr>obj_config := Some cfg'\<rparr>) =
           Inr (stored, self\<lparr>obj_config := Some cfg', obj_stored := Some stored\<rparr>)"
proof -
  have b: "StoredBase_stored E (self\<lparr>obj_config := Some cfg'\<rparr>) =
           Inr (s, self\<lparr>obj_config := Some cfg', obj_stored := Some s\<rparr>)"
    if "StoredBase_stored E self = Inr (s, s1)" for s s1
    using that assms(2,3)
    by (auto simp add: StoredBase_stored_def split: option.splits sum.splits)
  show ?thesis
  proof (cases "obj_cls self = StoredDailyActivity")
    case False
    with assms(1) b show ?thesis by (simp add: get_stored_def)
  next
    case True
    with assms(1) obtain s s1 where s: "StoredBase_stored E self = Inr (s, s1)"
      and st: "stored = AList.update ''total'' (PInt 500) s"
      by (auto simp add: get_stored_def StoredDailyActivity_stored_def Let_def split: sum.splits)
    from b [OF s] True show ?thesis
      by (simp add: get_stored_def StoredDailyActivity_stored_def Let_def st)
  qed
qed

subsection \<open>The daily-activity counter\<close>

lemma and_then_Inr [simp]: "and_then (Inr x) f = f x"
  by (simp add: and_then_def)

lemma and_then_Inl [simp]: "and_then (Inl e) f = Inl e"
  by (simp add: and_then_def)

text \<open>
  On a bound daily-activity record, whatever is persisted under its key for \<open>total\<close> (and
  for everything else, the \<open>time\<close> entry being one that hydration can read), every read of
  the snapshot has \<open>total = 500\<close>, so the attribute \<open>total\<close> reads \<open>500\<close>; and
  \<open>set(current)\<close> returns with \<open>current\<close> written, \<open>total = 500\<close>, and \<open>time\<close> stamped by its
  second assignment, the one of \<open>total\<close>.
\<close>

lemma daily_activity_total_pinned:
  assumes "obj_cls self = StoredDailyActivity"
    and "obj_config self = Some cfg"
    and "obj_stored self = None \<longrightarrow> time_entry_readable (deep_get (data cfg) (obj_key self) [])"
  shows "\<exists>stored self1.
           get_stored E self = Inr (stored, self1) \<and>
           map_of stored ''total'' = Some (PInt 500) \<and>
           getattribute E self ''total'' = Inr (PInt 500, self1) \<and>
           (\<exists>self2 snapshot.
              StoredDailyActivity_set E self current clock = Inr self2 \<and>
              obj_stored self2 = Some snapshot \<and>
              map_of snapshot ''current'' = Some current \<and>
              map_of snapshot ''total'' = Some (PInt 500) \<and>
              map_of snapshot ''time'' = Some (PDatetime (now (clock 1))))"
proof -
  from get_stored_readable [OF assms(2,3)] obtain stored where
    g: "get_stored E self = Inr (stored, self\<lparr>obj_stored := Some stored\<rparr>)" by blast
  have t: "map_of stored ''total'' = Some (PInt 500)"
    using assms(1) g by (rule get_stored_total)
  have ta: "''total'' \<in> set (map fst (attrs self))" and ca: "''current'' \<in> set (map fst (attrs self))"
    using assms(1) by (simp_all add: attrs_eq)
  have r: "getattribute E self ''total'' = Inr (PInt 500, self\<lparr>obj_stored := Some stored\<rparr>)"
    using ta g t by (rule getattribute_eq)
  let ?cfg0 = "cfg\<lparr>auto_update := False\<rparr>"
  let ?s0 = "self\<lparr>obj_config := Some ?cfg0\<rparr>"
  have g0: "get_stored E ?s0 = Inr (stored, ?s0\<lparr>obj_stored := Some stored\<rparr>)"
    using get_stored_rebind [OF g assms(2), of ?cfg0] by simp
  let ?snap1 = "AList.update ''current'' current (AList.update ''time'' (PDatetime (now (clock 0))) stored)"
  let ?cfg1 = "?cfg0\<lparr>modified := AList.update (obj_key self) ?snap1 (modified cfg)\<rparr>"
  let ?s1 = "self\<lparr>obj_stored := Some ?snap1, obj_config := Some ?cfg1\<rparr>"
  have w1: "setattr E ?s0 ''current'' current (clock 0) = Inr ?s1"
    using setattr_eq [OF _ g0, of "''current''" ?cfg0 current "clock 0"] ca by simp
  let ?pin = "AList.update ''total'' (PInt 500) ?snap1"
  have g1: "get_stored E ?s1 = Inr (?pin, ?s1\<lparr>obj_stored := Some ?pin\<rparr>)"
    using assms(1) by (simp add: get_stored_cached)
  let ?snap2 = "AList.update ''total'' (PInt 500) (AList.update ''time'' (PDatetime (now (clock 1))) ?pin)"
  from setattr_eq [OF _ g1, of "''total''" ?cfg1 "PInt 500" "clock 1"] ta
  obtain cfg2 where
    w2: "setattr E ?s1 ''total'' (PInt 500) (clock 1) = Inr (?s1\<lparr>obj_stored := Some ?snap2, obj_config := Some cfg2\<rparr>)"
    by simp
  have "StoredDailyActivity_set E self current clock =
          Inr (?s1\<lparr>obj_stored := Some ?snap2,
                    obj_config := Some (multi_set_exit E (auto_update cfg) cfg2)\<rparr>)"
    using assms(2)
    by (simp add: StoredDailyActivity_set_def StoredCounter_set_def with_multi_set_def
          multi_set_enter_def w1 w2 del: One_nat_def)
  moreover have "map_of ?snap2 ''current'' = Some current" "map_of ?snap2 ''total'' = Some (PInt 500)"
    "map_of ?snap2 ''time'' = Some (PDatetime (now (clock 1)))"
    by (simp_all add: update_conv' del: One_nat_def)
  ultimately show ?thesis using g t r by (simp del: One_nat_def)
qed


text \<open>The record persisted with \<open>total = 9\<close>.\<close>

lemmas set_defs = StoredDailyActivity_set_def StoredCounter_set_def with_multi_set_def
  multi_set_enter_def multi_set_exit_def

lemma daily_activity_total_pinned_example:
  "obj_cls example_activity = StoredDailyActivity \<and>
   obj_config example_activity = Some example_config \<and>
   time_entry_readable (deep_get (data example_config) (obj_key example_activity) []) \<and>
   map_of (deep_get (data example_config) (obj_key example_activity) []) ''total'' = Some (PInt 9) \<and>
   map_sum id fst (getattribute example_env example_activity ''total'') = Inr (PInt 500) \<and>
   map_sum id obj_stored
     (StoredDailyActivity_set example_env example_activity (PInt 130) (\<lambda>i. Datetime 1704090000 0)) =
     Inr (Some [(''time'', PDatetime (Datetime 1704090000 0)), (''current'', PInt 130),
                (''total'', PInt 500)])"
proof -
  have h1: "obj_cls example_activity = StoredDailyActivity"
    and h2: "obj_config example_activity = Some example_config"
    and h3: "time_entry_readable (deep_get (data example_config) (obj_key example_activity) [])"
    and h4: "map_of (deep_get (data example_config) (obj_key example_activity) []) ''total'' = Some (PInt 9)"
    by (simp_all add: example_defs deep_get_def time_entry_readable_def)
  from daily_activity_total_pinned [OF h1 h2, of example_env "PInt 130" "\<lambda>i. Datetime 1704090000 0"] h3
  obtain self1 self2 snapshot where
    r: "getattribute example_env example_activity ''total'' = Inr (PInt 500, self1)" and
    w: "StoredDailyActivity_set example_env example_activity (PInt 130) (\<lambda>i. Datetime 1704090000 0) = Inr self2"
       "obj_stored self2 = Some snapshot"
    by blast
  have "map_sum id obj_stored
     (StoredDailyActivity_set example_env example_activity (PInt 130) (\<lambda>i. Datetime 1704090000 0)) =
     Inr (Some [(''time'', PDatetime (Datetime 1704090000 0)), (''current'', PInt 130),
                (''total'', PInt 500)])"
    by (simp add: example_defs run_defs set_defs and_then_def)
  with h1 h2 h3 h4 r show ?thesis by simp
qed

text \<open>
  Claim C6 says that on every bound daily-activity record every read of \<open>total\<close> yields
  \<open>500\<close>, and that \<open>set(current)\<close> writes \<open>current\<close> and forces \<open>total = 500\<close>.  The record
  on the node \<open>Daily.Lost\<close> is bound and has \<open>total = 9\<close> persisted, but its persisted \<open>time\<close>
  is \<^verbatim>\<open>None\<close>: the property \<^verbatim>\<open>_stored\<close> calls the hydration before it pins anything,
  so the read of \<open>total\<close> and the call of \<open>set\<close> both raise \<^verbatim>\<open>TypeError\<close>.
\<close>

theorem daily_activity_raises_on_unreadable_time:
  "obj_cls example_broken_activity = StoredDailyActivity \<and>
   obj_config example_broken_activity = Some example_config \<and>
   map_of (deep_get (data example_config) (obj_key example_broken_activity) []) ''total'' =
     Some (PInt 9) \<and>
   get_stored example_env example_broken_activity = Inl TypeError \<and>
   getattribute example_env example_broken_activity ''total'' = Inl TypeError \<and>
   StoredDailyActivity_set example_env example_broken_activity (PInt 130) example_clock =
     Inl TypeError"
  by (simp add: example_defs run_defs set_defs and_then_def)

subsection \<open>Daily quests\<close>

lemma resolve_names_eq:
  "resolve_names E names = List.map_filter (quest_find E) (filter truthy names)"
  by (induction names) (simp_all add: List.map_filter_simps split: option.splits)

text \<open>A write to a cached snapshot of a record that is not a daily-activity counter.\<close>

lemma setattr_cached:
  assumes "obj_cls self \<noteq> StoredDailyActivity"
    and "key \<in> set (map fst (attrs self))"
  shows "setattr E (self\<lparr>obj_stored := Some stored, obj_config := Some cfg\<rparr>) key value clock =
     Inr (self\<lparr>obj_stored :=
                 Some (AList.update key value (AList.update ''time'' (PDatetime (now clock)) stored)),
               obj_config :=
                 Some (if auto_update cfg
                       then config_update E
                              (cfg\<lparr>modified := AList.update (obj_key self)
                                 (AList.update key value
                                    (AList.update ''time'' (PDatetime (now clock)) stored))
                                 (modified cfg)\<rparr>)
                       else cfg\<lparr>modified := AList.update (obj_key self)
                                 (AList.update key value
                                    (AList.update ''time'' (PDatetime (now clock)) stored))
                                 (modified cfg)\<rparr>)\<rparr>)"
proof -
  let ?s = "self\<lparr>obj_stored := Some stored, obj_config := Some cfg\<rparr>"
  have g: "get_stored E ?s = Inr (stored, ?s)"
    using assms(1) by (simp add: get_stored_cached)
  from setattr_eq [OF _ g, of key cfg "value" clock] assms(2) show ?thesis by simp
qed

lemma write_slot_eq:
  "write_slot E (map quest_to_name quests) self attr i clock =
     setattr E self attr (slot_value quests i) clock"
  by (simp add: write_slot_def py_index_def slot_value_def)

lemma write_quests_eq:
  fixes clock :: "nat \<Rightarrow> datetime" and quests :: "pyval list"
  assumes "obj_cls self = StoredDaily"
    and "obj_config self = Some cfg"
    and "get_stored E self = Inr (stored, self1)"
  defines "snap \<equiv>
         AList.update ''quest6'' (slot_value quests 5) (AList.update ''time'' (PDatetime (now (clock 5)))
        (AList.update ''quest5'' (slot_value quests 4) (AList.update ''time'' (PDatetime (now (clock 4)))
        (AList.update ''quest4'' (slot_value quests 3) (AList.update ''time'' (PDatetime (now (clock 3)))
        (AList.update ''quest3'' (slot_value quests 2) (AList.update ''time'' (PDatetime (now (clock 2)))
        (AList.update ''quest2'' (slot_value quests 1) (AList.update ''time'' (PDatetime (now (clock 1)))
        (AList.update ''quest1'' (slot_value quests 0) (AList.update ''time'' (PDatetime (now (clock 0)))
           stored)))))))))))"
  shows "write_quests E self quests clock =
      Inr (self\<lparr>obj_stored := Some snap,
                obj_config := Some (multi_set_exit E (auto_update cfg)
                  (cfg\<lparr>auto_update := False,
                       modified := AList.update (obj_key self) snap (modified cfg)\<rparr>))\<rparr>)"
proof -
  let ?cfg0 = "cfg\<lparr>auto_update := False\<rparr>"
  let ?s0 = "self\<lparr>obj_config := Some ?cfg0\<rparr>"
  have c: "obj_cls self \<noteq> StoredDailyActivity" using assms(1) by simp
  have a: "''quest1'' \<in> set (map fst (attrs self))" "''quest2'' \<in> set (map fst (attrs self))"
    "''quest3'' \<in> set (map fst (attrs self))" "''quest4'' \<in> set (map fst (attrs self))"
    "''quest5'' \<in> set (map fst (attrs self))" "''quest6'' \<in> set (map fst (attrs self))"
    using assms(1) by (simp_all add: attrs_eq)
  have g0: "get_stored E ?s0 = Inr (stored, ?s0\<lparr>obj_stored := Some stored\<rparr>)"
    using get_stored_rebind [OF assms(3,2), of ?cfg0] by simp
  have w1: "setattr E ?s0 ''quest1'' val clk =
      Inr (self\<lparr>obj_stored := Some (AList.update ''quest1'' val
                 (AList.update ''time'' (PDatetime (now clk)) stored)),
                obj_config := Some (?cfg0\<lparr>modified := AList.update (obj_key self)
                   (AList.update ''quest1'' val (AList.update ''time'' (PDatetime (now clk)) stored))
                   (modified cfg)\<rparr>)\<rparr>)" for val clk
    using setattr_eq [OF _ g0, of "''quest1''" ?cfg0 val clk] a(1) by simp
  show ?thesis
    using assms(2) unfolding snap_def
    by (simp add: write_quests_def with_multi_set_def multi_set_enter_def write_slot_eq w1
          setattr_cached [OF c a(2)] setattr_cached [OF c a(3)] setattr_cached [OF c a(4)]
          setattr_cached [OF c a(5)] setattr_cached [OF c a(6)] Let_def del: One_nat_def)
qed

lemma write_quests_slots:
  fixes clock :: "nat \<Rightarrow> datetime"
  assumes "obj_cls self = StoredDaily"
    and "obj_config self = Some cfg"
    and "get_stored E self = Inr (stored, self1)"
  shows "\<exists>self2 snapshot.
           write_quests E self quests clock = Inr self2 \<and>
           obj_cls self2 = StoredDaily \<and>
           obj_stored self2 = Some snapshot \<and>
           map (map_of snapshot) quest_slots = map (\<lambda>i. Some (slot_value quests i)) [0..<6]"
proof -
  have n: "[0..<6] = [0, 1, 2, 3, 4, 5::nat]"
    by (simp add: upt_rec)
  show ?thesis
    unfolding write_quests_eq [OF assms] using assms(1)
    by (simp add: quest_slots_def n update_conv' del: One_nat_def)
qed

lemma slot_values_eq:
  "map (slot_value quests) [0..<n] =
     take n (map quest_to_name quests @ replicate n (PStr ''''))"
  by (rule nth_equalityI) (auto simp add: slot_value_def nth_append)

lemma filter_truthy_slots:
  "filter truthy (map (slot_value quests) [0..<n]) = filter truthy (map quest_to_name (take n quests))"
  by (simp add: slot_values_eq take_map)

lemma load_quests_cached:
  assumes "obj_cls self = StoredDaily"
    and "obj_stored self = Some snapshot"
    and "map (map_of snapshot) quest_slots = map Some [n1, n2, n3, n4, n5, n6]"
  shows "load_quests E self = Inr (resolve_names E [n1, n2, n3, n4, n5, n6], self)"
proof -
  have g: "get_stored E self = Inr (snapshot, self)"
    using assms(1,2) by (simp add: get_stored_cached)
  have a: "''quest1'' \<in> set (map fst (attrs self))" "''quest2'' \<in> set (map fst (attrs self))"
    "''quest3'' \<in> set (map fst (attrs self))" "''quest4'' \<in> set (map fst (attrs self))"
    "''quest5'' \<in> set (map fst (attrs self))" "''quest6'' \<in> set (map fst (attrs self))"
    using assms(1) by (simp_all add: attrs_eq)
  from assms(3) have m: "map_of snapshot ''quest1'' = Some n1" "map_of snapshot ''quest2'' = Some n2"
    "map_of snapshot ''quest3'' = Some n3" "map_of snapshot ''quest4'' = Some n4"
    "map_of snapshot ''quest5'' = Some n5" "map_of snapshot ''quest6'' = Some n6"
    by (simp_all add: quest_slots_def)
  show ?thesis
    by (simp add: load_quests_def getattribute_eq [OF a(1) g m(1)] getattribute_eq [OF a(2) g m(2)]
          getattribute_eq [OF a(3) g m(3)] getattribute_eq [OF a(4) g m(4)]
          getattribute_eq [OF a(5) g m(5)] getattribute_eq [OF a(6) g m(6)])
qed

text \<open>
  On a bound daily-quest record whose snapshot can be read, \<open>write_quests\<close> of a list of at
  most six items returns, and leaves in \<open>quest1\<close> ... \<open>quest6\<close> the names of the items in
  input order followed by empty strings (six empty strings for the empty list).
  \<open>load_quests\<close> on the record it leaves returns, in slot order, what \<open>DailyQuest.find\<close>
  resolves among the non-empty names.
\<close>

lemma write_then_load_quests:
  fixes clock :: "nat \<Rightarrow> datetime"
  assumes "obj_cls self = StoredDaily"
    and "obj_config self = Some cfg"
    and "get_stored E self = Inr (stored, self1)"
    and "length quests \<le> 6"
  shows "\<exists>self2 snapshot.
           write_quests E self quests clock = Inr self2 \<and>
           obj_stored self2 = Some snapshot \<and>
           map (map_of snapshot) quest_slots =
             map Some (map quest_to_name quests @ replicate (6 - length quests) (PStr '''')) \<and>
           load_quests E self2 =
             Inr (List.map_filter (quest_find E) (filter truthy (map quest_to_name quests)), self2)"
proof -
  from write_quests_slots [OF assms(1-3), of quests clock] obtain self2 snapshot where
    w: "write_quests E self quests clock = Inr self2" and c: "obj_cls self2 = StoredDaily" and
    s: "obj_stored self2 = Some snapshot" and
    m: "map (map_of snapshot) quest_slots = map (\<lambda>i. Some (slot_value quests i)) [0..<6]"
    by blast
  have n: "[0..<6] = [0, 1, 2, 3, 4, 5::nat]"
    by (simp add: upt_rec)
  have v: "map (slot_value quests) [0..<6] =
      map quest_to_name quests @ replicate (6 - length quests) (PStr '''')"
    using assms(4) by (simp add: slot_values_eq)
  have m': "map (map_of snapshot) quest_slots =
      map Some [slot_value quests 0, slot_value quests 1, slot_value quests 2,
                slot_value quests 3, slot_value quests 4, slot_value quests 5]"
    using m by (simp add: n del: One_nat_def)
  have "load_quests E self2 =
      Inr (resolve_names E (map (slot_value quests) [0..<6]), self2)"
    using load_quests_cached [OF c s m', of E] by (simp add: n del: One_nat_def)
  then have l: "load_quests E self2 =
      Inr (List.map_filter (quest_find E) (filter truthy (map quest_to_name quests)), self2)"
    using assms(4) by (simp add: resolve_names_eq filter_truthy_slots)
  have "map (map_of snapshot) quest_slots = map Some (map (slot_value quests) [0..<6])"
    using m by (simp add: comp_def)
  with w s l show ?thesis by (simp add: v)
qed

text \<open>
  Writing a quest object and a name, then loading: both resolve, in order.  Writing the
  empty list clears the six slots.
\<close>

lemmas quest_defs = write_quests_def write_slot_def py_index_def quest_to_name_def load_quests_def
  with_multi_set_def multi_set_enter_def multi_set_exit_def and_then_def

lemma write_then_load_quests_example:
  "obj_cls example_daily = StoredDaily \<and>
   obj_config example_daily = Some example_config \<and>
   map_sum id fst (get_stored example_env example_daily) =
     Inr [(''time'', PDatetime DEFAULT_TIME), (''quest1'', PStr ''''), (''quest2'', PStr ''''),
          (''quest3'', PStr ''''), (''quest4'', PStr ''''), (''quest5'', PStr ''''),
          (''quest6'', PStr '''')] \<and>
   and_then
     (write_quests example_env example_daily [PQuest (DailyQuest 1 ''Quest_A''), PStr ''Quest_B'']
        (\<lambda>i. Datetime 1704090000 0))
     (\<lambda>self2. map_sum id fst (load_quests example_env self2)) =
     Inr [DailyQuest 1 ''Quest_A'', DailyQuest 2 ''Quest_B''] \<and>
   map_sum id obj_stored
     (write_quests example_env example_daily [PQuest (DailyQuest 1 ''Quest_A''), PStr ''Quest_B'']
        (\<lambda>i. Datetime 1704090000 0)) =
     Inr (Some [(''time'', PDatetime (Datetime 1704090000 0)), (''quest1'', PStr ''Quest_A''),
                (''quest2'', PStr ''Quest_B''), (''quest3'', PStr ''''), (''quest4'', PStr ''''),
                (''quest5'', PStr ''''), (''quest6'', PStr '''')]) \<and>
   map_sum id obj_stored (write_quests example_env example_daily [] (\<lambda>i. Datetime 1704090000 0)) =
     Inr (Some [(''time'', PDatetime (Datetime 1704090000 0)), (''quest1'', PStr ''''),
                (''quest2'', PStr ''''), (''quest3'', PStr ''''), (''quest4'', PStr ''''),
                (''quest5'', PStr ''''), (''quest6'', PStr '''')])"
proof -
  let ?d = "[(''time'', PDatetime DEFAULT_TIME), (''quest1'', PStr ''''), (''quest2'', PStr ''''),
          (''quest3'', PStr ''''), (''quest4'', PStr ''''), (''quest5'', PStr ''''),
          (''quest6'', PStr '''')]"
  let ?qs = "[PQuest (DailyQuest 1 ''Quest_A''), PStr ''Quest_B'']"
  have h1: "obj_cls example_daily = StoredDaily"
    and h2: "obj_config example_daily = Some example_config"
    by (simp_all add: example_defs)
  have h3: "get_stored example_env example_daily = Inr (?d, example_daily\<lparr>obj_stored := Some ?d\<rparr>)"
    by (simp add: example_defs run_defs)
  have h4: "length ?qs \<le> 6" by simp
  from write_then_load_quests [OF h1 h2 h3 h4, of "\<lambda>i. Datetime 1704090000 0"]
  obtain self2 where
    w: "write_quests example_env example_daily ?qs (\<lambda>i. Datetime 1704090000 0) = Inr self2" and
    l: "load_quests example_env self2 =
          Inr (List.map_filter (quest_find example_env) (filter truthy (map quest_to_name ?qs)), self2)"
    by blast
  have "List.map_filter (quest_find example_env) (filter truthy (map quest_to_name ?qs)) =
      [DailyQuest 1 ''Quest_A'', DailyQuest 2 ''Quest_B'']"
    by (simp add: List.map_filter_simps quest_to_name_def example_env_def)
  with w l have r: "and_then (write_quests example_env example_daily ?qs (\<lambda>i. Datetime 1704090000 0))
     (\<lambda>self2. map_sum id fst (load_quests example_env self2)) =
     Inr [DailyQuest 1 ''Quest_A'', DailyQuest 2 ''Quest_B'']"
    by simp
  have e: "map_sum id obj_stored (write_quests example_env example_daily ?qs (\<lambda>i. Datetime 1704090000 0)) =
     Inr (Some [(''time'', PDatetime (Datetime 1704090000 0)), (''quest1'', PStr ''Quest_A''),
                (''quest2'', PStr ''Quest_B''), (''quest3'', PStr ''''), (''quest4'', PStr ''''),
                (''quest5'', PStr ''''), (''quest6'', PStr '''')])"
    "map_sum id obj_stored (write_quests example_env example_daily [] (\<lambda>i. Datetime 1704090000 0)) =
     Inr (Some [(''time'', PDatetime (Datetime 1704090000 0)), (''quest1'', PStr ''''),
                (''quest2'', PStr ''''), (''quest3'', PStr ''''), (''quest4'', PStr ''''),
                (''quest5'', PStr ''''), (''quest6'', PStr '''')])"
    by (simp_all add: example_defs run_defs quest_defs)
  from h1 h2 h3 r e show ?thesis by simp
qed

text \<open>The names a list of quest objects and strings is normalised to are strings.\<close>

lemma quest_to_name_str:
  "type_of q = DailyQuestT \<or> type_of q = StrT \<Longrightarrow> type_of (quest_to_name q) = StrT"
  by (cases q) (simp_all add: quest_to_name_def)

lemma slot_value_str:
  "\<forall>q\<in>set quests. type_of q = DailyQuestT \<or> type_of q = StrT \<Longrightarrow> type_of (slot_value quests i) = StrT"
  by (simp add: slot_value_def quest_to_name_str)

text \<open>
  When every item of the input list is a quest object or a string and the snapshot can be
  read, \<open>write_quests\<close> writes strings only: every name is a string, each of \<open>quest1\<close> ...
  \<open>quest6\<close> then holds the name of its item (the empty string past the end of the list),
  and that is a string, an instance of the type of the slot's default.
\<close>

lemma write_quests_slots_hold_strings:
  fixes clock :: "nat \<Rightarrow> datetime"
  assumes "obj_cls self = StoredDaily"
    and "obj_config self = Some cfg"
    and "get_stored E self = Inr (stored, self1)"
    and "\<forall>q\<in>set quests. type_of q = DailyQuestT \<or> type_of q = StrT"
  shows "(\<forall>name\<in>set (map quest_to_name quests). type_of name = StrT) \<and>
         (\<exists>self2 snapshot.
            write_quests E self quests clock = Inr self2 \<and>
            obj_stored self2 = Some snapshot \<and>
            map (map_of snapshot) quest_slots = map (\<lambda>i. Some (slot_value quests i)) [0..<6] \<and>
            (\<forall>slot\<in>set quest_slots.
               \<exists>v. map_of snapshot slot = Some v \<and> type_of v = StrT \<and>
                   isinstance v (type_of (dict_get (attrs self) slot PNone))))"
proof -
  from write_quests_slots [OF assms(1-3), of quests clock] obtain self2 snapshot where
    w: "write_quests E self quests clock = Inr self2" and
    s: "obj_stored self2 = Some snapshot" and
    m: "map (map_of snapshot) quest_slots = map (\<lambda>i. Some (slot_value quests i)) [0..<6]"
    by blast
  have n: "[0..<6] = [0, 1, 2, 3, 4, 5::nat]"
    by (simp add: upt_rec)
  have t: "type_of (slot_value quests i) = StrT" for i
    using assms(4) by (rule slot_value_str)
  have "\<forall>slot\<in>set quest_slots.
          \<exists>v. map_of snapshot slot = Some v \<and> type_of v = StrT \<and>
              isinstance v (type_of (dict_get (attrs self) slot PNone))"
    using m assms(1)
    by (simp add: quest_slots_def n t attrs_eq dict_get_def isinstance_def del: One_nat_def)
  with w s m assms(4) show ?thesis by (auto simp add: quest_to_name_str)
qed

text \<open>The quest object of the list is stored by its name.\<close>

lemma write_quests_slots_hold_strings_example:
  "obj_cls example_daily = StoredDaily \<and>
   obj_config example_daily = Some example_config \<and>
   type_of (PQuest (DailyQuest 1 ''Quest_A'')) = DailyQuestT \<and>
   type_of (PStr ''Quest_B'') = StrT \<and>
   map quest_to_name [PQuest (DailyQuest 1 ''Quest_A''), PStr ''Quest_B''] =
     [PStr ''Quest_A'', PStr ''Quest_B''] \<and>
   map type_of (map quest_to_name [PQuest (DailyQuest 1 ''Quest_A''), PStr ''Quest_B'']) =
     [StrT, StrT] \<and>
   map_sum id obj_stored
     (write_quests example_env example_daily [PQuest (DailyQuest 1 ''Quest_A''), PStr ''Quest_B'']
        (\<lambda>i. Datetime 1704090000 0)) =
     Inr (Some [(''time'', PDatetime (Datetime 1704090000 0)), (''quest1'', PStr ''Quest_A''),
                (''quest2'', PStr ''Quest_B''), (''quest3'', PStr ''''), (''quest4'', PStr ''''),
                (''quest5'', PStr ''''), (''quest6'', PStr '''')])"
proof -
  let ?d = "[(''time'', PDatetime DEFAULT_TIME), (''quest1'', PStr ''''), (''quest2'', PStr ''''),
          (''quest3'', PStr ''''), (''quest4'', PStr ''''), (''quest5'', PStr ''''),
          (''quest6'', PStr '''')]"
  let ?qs = "[PQuest (DailyQuest 1 ''Quest_A''), PStr ''Quest_B'']"
  have h1: "obj_cls example_daily = StoredDaily"
    and h2: "obj_config example_daily = Some example_config"
    by (simp_all add: example_defs)
  have h3: "get_stored example_env example_daily = Inr (?d, example_daily\<lparr>obj_stored := Some ?d\<rparr>)"
    by (simp add: example_defs run_defs)
  have h4: "\<forall>q\<in>set ?qs. type_of q = DailyQuestT \<or> type_of q = StrT" by simp
  have n: "map quest_to_name ?qs = [PStr ''Quest_A'', PStr ''Quest_B'']"
    by (simp add: quest_to_name_def)
  from write_quests_slots_hold_strings [OF h1 h2 h3 h4, of "\<lambda>i. Datetime 1704090000 0"]
  have "\<forall>name\<in>set (map quest_to_name ?qs). type_of name = StrT"
    by blast
  then have t: "map type_of (map quest_to_name ?qs) = [StrT, StrT]"
    by simp
  have e: "map_sum id obj_stored (write_quests example_env example_daily ?qs (\<lambda>i. Datetime 1704090000 0)) =
     Inr (Some [(''time'', PDatetime (Datetime 1704090000 0)), (''quest1'', PStr ''Quest_A''),
                (''quest2'', PStr ''Quest_B''), (''quest3'', PStr ''''), (''quest4'', PStr ''''),
                (''quest5'', PStr ''''), (''quest6'', PStr '''')])"
    by (simp add: example_defs run_defs quest_defs)
  from h1 h2 n t e show ?thesis by simp
qed

text \<open>
  Claim C7 says that on every bound daily-quest record \<open>write_quests\<close> fills the six slots
  and a following \<open>load_quests\<close> returns the quests that resolve.  The record on the node
  \<open>Daily.Broken\<close> is bound, but its persisted \<open>time\<close> is the integer \<open>0\<close>: the first
  assignment inside \<open>write_quests\<close> raises the \<^verbatim>\<open>TypeError\<close> of the hydration, which is
  not the \<^verbatim>\<open>IndexError\<close> its \<^verbatim>\<open>try\<close> catches, and so does the first read of
  \<open>load_quests\<close>.
\<close>

theorem write_quests_raises_on_unreadable_time:
  "obj_cls example_broken_daily = StoredDaily \<and>
   obj_config example_broken_daily = Some example_config \<and>
   write_quests example_env example_broken_daily
     [PQuest (DailyQuest 1 ''Quest_A''), PStr ''Quest_B''] example_clock = Inl TypeError \<and>
   write_quests example_env example_broken_daily [] example_clock = Inl TypeError \<and>
   load_quests example_env example_broken_daily = Inl TypeError"
  by (simp add: example_defs run_defs quest_defs)

text \<open>
  Claim C10 says that after any \<open>write_quests\<close> on a bound daily-quest record, with quest
  objects and strings as items, every slot of the snapshot holds a string.  The quest
  object is normalised to its name before anything is written, but on the same record
  the call then raises \<^verbatim>\<open>TypeError\<close> and leaves no snapshot whose slots could hold
  anything.
\<close>

theorem write_quests_leaves_no_slots_on_unreadable_time:
  "type_of (PQuest (DailyQuest 2 ''Quest_B'')) = DailyQuestT \<and>
   type_of (PStr ''Quest_A'') = StrT \<and>
   map quest_to_name [PQuest (DailyQuest 2 ''Quest_B''), PStr ''Quest_A''] =
     [PStr ''Quest_B'', PStr ''Quest_A''] \<and>
   map_sum id obj_stored
     (write_quests example_env example_broken_daily
        [PQuest (DailyQuest 2 ''Quest_B''), PStr ''Quest_A''] example_clock) = Inl TypeError"
  by (simp add: example_defs run_defs quest_defs)

subsection \<open>The derived schema\<close>

text \<open>
  For any class object at all, the loop of \<^verbatim>\<open>_attrs\<close> keeps \<open>time\<close> in front, and
  \<^verbatim>\<open>iter_attribute\<close> yields public names only, with the value \<^verbatim>\<open>getattr\<close> finds, none
  of them a function or a property.
\<close>

lemma fold_update_head:
  "\<exists>d rest. fold (\<lambda>(attr, value) a. AList.update attr value a) xs ((k, v) # al) = (k, d) # rest"
proof (induction xs arbitrary: v al)
  case Nil
  then show ?case by simp
next
  case (Cons x xs)
  obtain a b where x: "x = (a, b)" by (cases x)
  show ?case
  proof (cases "a = k")
    case True
    with Cons.IH [of b al] x show ?thesis by simp
  next
    case False
    with Cons.IH [of v "AList.update a b al"] x show ?thesis by simp
  qed
qed

lemma schema_time_first:
  "\<exists>d rest.
     fold (\<lambda>(attr, value) a. AList.update attr value a) (iter_attribute cls)
       [(''time'', PDatetime DEFAULT_TIME)] = (''time'', d) # rest"
  by (rule fold_update_head)

lemma iter_names_public:
  "(a, v) \<in> set (iter_names cls names) \<Longrightarrow>
   a \<in> set names \<and> \<not> startswith a ''_'' \<and> getattr cls a = Some v \<and>
   type_name (type_of v) \<noteq> ''function'' \<and> type_name (type_of v) \<noteq> ''property''"
  by (induction names) (auto split: if_splits option.splits)

text \<open>
  More precisely, for any class object: the schema is \<open>time\<close>, with the value the class
  gives it when \<^verbatim>\<open>iter_attribute\<close> yields one and the "never" default otherwise, followed
  by everything else \<^verbatim>\<open>iter_attribute\<close> yields, in its order.
\<close>

lemma update_absent: "k \<notin> fst ` set al \<Longrightarrow> AList.update k v al = al @ [(k, v)]"
  by (induction al) auto

lemma fold_update_distinct:
  assumes "distinct (map fst xs)" and "fst ` set xs \<inter> fst ` set al = {}" and "k \<notin> fst ` set al"
  shows "fold (\<lambda>(attr, value) a. AList.update attr value a) xs ((k, v) # al) =
           (k, case map_of xs k of None \<Rightarrow> v | Some v' \<Rightarrow> v') # al @ filter (\<lambda>(a, b). a \<noteq> k) xs"
  using assms
proof (induction xs arbitrary: v al)
  case Nil
  then show ?case by simp
next
  case (Cons x xs)
  obtain a b where x: "x = (a, b)" by (cases x)
  show ?case
  proof (cases "a = k")
    case True
    from Cons.prems x True have "k \<notin> fst ` set xs" by auto
    then have m: "map_of xs k = None" by (simp add: map_of_eq_None_iff)
    from Cons.prems x have "distinct (map fst xs)" "fst ` set xs \<inter> fst ` set al = {}" by auto
    from Cons.IH [OF this Cons.prems(3), of b] True x m show ?thesis by simp
  next
    case False
    from Cons.prems x have na: "a \<notin> fst ` set al" by auto
    from Cons.prems x have d: "distinct (map fst xs)" and "a \<notin> fst ` set xs" by auto
    with Cons.prems x False
    have i: "fst ` set xs \<inter> fst ` set (al @ [(a, b)]) = {}" and k: "k \<notin> fst ` set (al @ [(a, b)])"
      by auto
    from Cons.IH [OF d i k, of v] False x na show ?thesis
      by (simp add: update_absent)
  qed
qed

lemma iter_names_subset: "set (map fst (iter_names cls names)) \<subseteq> set names"
  by (induction names) (auto split: if_splits option.splits)

lemma iter_names_distinct: "distinct names \<Longrightarrow> distinct (map fst (iter_names cls names))"
proof (induction names)
  case Nil
  then show ?case by simp
next
  case (Cons a names)
  with iter_names_subset [of cls names] show ?case
    by (auto split: option.splits)
qed

lemma iter_attribute_distinct: "distinct (map fst (iter_attribute cls))"
  by (simp add: iter_attribute_def dir_def iter_names_distinct)

lemma schema_any_class:
  "class_attrs cls =
   (''time'', case map_of (iter_attribute cls) ''time'' of
                None \<Rightarrow> PDatetime DEFAULT_TIME
              | Some v \<Rightarrow> v) #
   filter (\<lambda>(a, v). a \<noteq> ''time'') (iter_attribute cls)"
  unfolding class_attrs_def
  using fold_update_distinct [OF iter_attribute_distinct, of cls "[]" "''time''" "PDatetime DEFAULT_TIME"]
  by simp

text \<open>
  The test on the name of the type of a member is the test for a function object or a
  property object, so \<^verbatim>\<open>iter_attribute\<close> yields the kept members.
\<close>

lemma type_name_function_or_property:
  "(type_name (type_of v) = ''function'' \<or> type_name (type_of v) = ''property'') \<longleftrightarrow>
   is_function_or_property v"
  by (cases v) (simp_all add: is_function_or_property_def)

lemma iter_names_kept:
  "iter_names cls names =
     concat (map (\<lambda>a. case getattr cls a of
                         None \<Rightarrow> []
                       | Some v \<Rightarrow>
                           if startswith a ''_'' \<or> is_function_or_property v then [] else [(a, v)])
                 names)"
  by (induction names) (simp_all add: type_name_function_or_property split: option.splits)

lemma iter_attribute_kept: "iter_attribute cls = kept_members cls"
  by (simp add: iter_attribute_def kept_members_def iter_names_kept)

lemma class_attrs_kept:
  "class_attrs cls =
     (''time'', time_default cls) # filter (\<lambda>(a, v). a \<noteq> ''time'') (kept_members cls)"
  by (simp add: schema_any_class time_default_def iter_attribute_kept)

lemma class_attrs_distinct: "distinct (map fst (class_attrs cls))"
proof -
  have "distinct (map fst (filter (\<lambda>(a, v). a \<noteq> ''time'') (iter_attribute cls)))"
    using iter_attribute_distinct [of cls] by (rule distinct_map_filter)
  then show ?thesis by (auto simp add: schema_any_class)
qed

lemma time_default_cases:
  "time_default cls = PDatetime DEFAULT_TIME \<or>
   getattr cls ''time'' = Some (time_default cls) \<and> \<not> is_function_or_property (time_default cls)"
proof (cases "map_of (iter_attribute cls) ''time''")
  case None
  then show ?thesis by (simp add: time_default_def iter_attribute_kept)
next
  case (Some v)
  then have "(''time'', v) \<in> set (iter_names cls (dir cls))"
    by (auto simp add: iter_attribute_def dest: map_of_SomeD)
  from iter_names_public [OF this] Some show ?thesis
    by (simp add: time_default_def iter_attribute_kept [symmetric]
          type_name_function_or_property [symmetric])
qed

lemma time_default_inherited:
  "getattr cls ''time'' = Some (PDatetime DEFAULT_TIME) \<Longrightarrow> time_default cls = PDatetime DEFAULT_TIME"
  using time_default_cases [of cls] by auto

text \<open>The specification's schema of each of the record types of the source.\<close>

lemma schema_of_spec:
  "(''time'', PDatetime DEFAULT_TIME) #
     filter (\<lambda>(a, v). a \<noteq> ''time'') (public_stored_members (class_of c))
   = (''time'', PDatetime DEFAULT_TIME) #
     (case c of
        StoredBase \<Rightarrow> []
      | StoredExpiredAt0400 \<Rightarrow> []
      | StoredInt \<Rightarrow> [(''value'', PInt 0)]
      | StoredCounter \<Rightarrow> [(''current'', PInt 0), (''total'', PInt 0)]
      | StoredDailyActivity \<Rightarrow> [(''current'', PInt 0), (''total'', PInt 0)]
      | StoredDaily \<Rightarrow>
          [(''quest1'', PStr ''''), (''quest2'', PStr ''''), (''quest3'', PStr ''''),
           (''quest4'', PStr ''''), (''quest5'', PStr ''''), (''quest6'', PStr '''')]
      | StoredDungeonDouble \<Rightarrow> [(''calyx'', PInt 0), (''relic'', PInt 0)])"
  by (cases c; hypsubst; code_simp)

lemma schema_of_source_classes: "class_attrs (class_of c) = claimed_schema (class_of c)"
  by (simp only: class_attrs_def claimed_schema_def schema_of_class schema_of_spec)

text \<open>
  Claim C8, as amended.  For every record type, indeed for every class object, the schema
  is a function of the type alone, so that two derivations give the same ordered mapping,
  with each name once.  \<open>time\<close> is always present and first; its default is the "never"
  instant unless the type itself declares a public member \<open>time\<close> that is neither a
  function nor a property, whose value is then the default: in particular it is "never"
  for a type that inherits \<open>time\<close> from \<^verbatim>\<open>StoredBase\<close> as it is.  The remaining entries are
  exactly the members of the type with a public name whose value is neither a function
  object nor a property object, in the order of \<open>dir\<close>: methods and properties are skipped,
  any other computed accessor, such as a \<^verbatim>\<open>cached_property\<close>, is kept.  On the seven record
  types of the source this is the schema that the claim describes.
\<close>

theorem schema_of_any_record_type:
  "class_attrs cls =
     (''time'', time_default cls) # filter (\<lambda>(a, v). a \<noteq> ''time'') (kept_members cls) \<and>
   distinct (map fst (class_attrs cls)) \<and>
   (getattr cls ''time'' = Some (PDatetime DEFAULT_TIME) \<longrightarrow>
      time_default cls = PDatetime DEFAULT_TIME) \<and>
   (time_default cls = PDatetime DEFAULT_TIME \<or>
      getattr cls ''time'' = Some (time_default cls) \<and>
      \<not> is_function_or_property (time_default cls)) \<and>
   class_attrs (class_of c) = claimed_schema (class_of c) \<and>
   attrs self = class_attrs (class_of (obj_cls self)) \<and>
   (obj_cls self' = obj_cls self \<longrightarrow> attrs self' = attrs self)"
  using class_attrs_kept [of cls] class_attrs_distinct [of cls] time_default_inherited [of cls]
    time_default_cases [of cls] schema_of_source_classes [of c]
  by (simp add: attrs_def)

text \<open>
  The schema of the daily-activity counter, which inherits \<open>time\<close>, for two of its records
  under different keys; and the schema of the subclass that redeclares \<open>time\<close>.
\<close>

theorem schema_of_any_record_type_witness:
  "getattr (class_of StoredDailyActivity) ''time'' = Some (PDatetime DEFAULT_TIME) \<and>
   time_default (class_of StoredDailyActivity) = PDatetime DEFAULT_TIME \<and>
   kept_members (class_of StoredDailyActivity) =
     [(''current'', PInt 0), (''time'', PDatetime DEFAULT_TIME), (''total'', PInt 0)] \<and>
   class_attrs (class_of StoredDailyActivity) =
     [(''time'', PDatetime DEFAULT_TIME), (''current'', PInt 0), (''total'', PInt 0)] \<and>
   obj_cls (StoredBase_init StoredDailyActivity ''Daily.Other'') = obj_cls example_activity \<and>
   attrs (StoredBase_init StoredDailyActivity ''Daily.Other'') = attrs example_activity \<and>
   attrs example_activity =
     [(''time'', PDatetime DEFAULT_TIME), (''current'', PInt 0), (''total'', PInt 0)] \<and>
   time_default example_subclass = PNone \<and>
   getattr example_subclass ''time'' = Some PNone"
proof -
  have g: "getattr (class_of StoredDailyActivity) ''time'' = Some (PDatetime DEFAULT_TIME)"
    by code_simp
  have k: "kept_members (class_of StoredDailyActivity) =
     [(''current'', PInt 0), (''time'', PDatetime DEFAULT_TIME), (''total'', PInt 0)]"
    by code_simp
  have h: "obj_cls (StoredBase_init StoredDailyActivity ''Daily.Other'') = obj_cls example_activity"
    and c: "class_of (obj_cls example_activity) = class_of StoredDailyActivity"
    by (simp_all add: example_defs)
  have n: "time_default example_subclass = PNone" "getattr example_subclass ''time'' = Some PNone"
    by code_simp+
  from schema_of_any_record_type
    [of "class_of StoredDailyActivity" StoredDailyActivity example_activity
       "StoredBase_init StoredDailyActivity ''Daily.Other''"] g k h c n
  show ?thesis by simp
qed

text \<open>
  The claim as stated fails on the subclass: the code keeps its \<open>time = None\<close> as the
  default of \<open>time\<close> and keeps \<open>label\<close>, a computed property, in the schema, where the claim
  has the "never" default and nothing else.
\<close>

theorem claimed_schema_counterexample:
  "class_attrs example_subclass = [(''time'', PNone), (''label'', PCachedProperty)] \<and>
   is_method_or_property PCachedProperty \<and>
   claimed_schema example_subclass = [(''time'', PDatetime DEFAULT_TIME)] \<and>
   class_attrs example_subclass \<noteq> claimed_schema example_subclass"
  by code_simp

end
